theory Spec2Isabelle
  imports Main "HOL-Library.Char_ord"
begin

section \<open>Data model\<close>

text \<open>
  The models of \<^verbatim>\<open>users/models.py\<close>, \<^verbatim>\<open>clinic/models.py\<close> and
  \<^verbatim>\<open>therapy/models.py\<close>, one record per model class, with the fields the access
  control, the cascades and the provisioning handlers read or write. A foreign key is the
  primary key of the row it points to, a nullable one an option; the foreign key
  \<^verbatim>\<open>User.role\<close> is the (unique) name of the role. A nullable character field is a
  string, the empty string standing for \<^verbatim>\<open>None\<close> as well: the code reads such a field
  through its truth value before it uses it.

  \<^verbatim>\<open>request.user\<close> is a \<open>user\<close>: \<open>is_authenticated\<close> is true of every row of the
  user table and false of Django's anonymous user.
\<close>

record user =
  uid :: nat
  email :: string
  password :: string
  first_name :: string
  last_name :: string
  role :: "string option"
  is_staff :: bool
  is_active :: bool
  is_superuser :: bool
  is_authenticated :: bool
  password_reset_required :: bool
  user_groups :: "string list"
  user_permissions :: "string list"

record clinic =
  clinic_pk :: "nat option"
  clinic_name :: string
  contact_person_name :: string
  clinic_email :: string
  clinic_admin :: "nat option"
  clinic_is_active :: bool

record therapist_profile =
  therapist_id :: nat
  therapist_first_name :: string
  therapist_last_name :: string
  therapist_email :: string
  therapist_is_active :: bool
  therapist_clinic :: "nat option"
  therapist_user :: "nat option"

record parent_profile =
  parent_id :: nat
  parent_first_name :: string
  parent_last_name :: string
  parent_email :: string
  parent_is_active :: bool
  parent_user :: "nat option"

record child =
  child_id :: nat
  child_name :: string
  child_clinic :: nat
  child_parent :: nat
  assigned_therapist :: "nat option"

record goal =
  goal_id :: nat
  goal_child :: nat
  goal_title :: string

record task =
  task_id :: nat
  task_goal :: nat
  task_title :: string

record assignment =
  assignment_id :: nat
  assignment_child :: nat
  assignment_therapist :: nat
  assignment_task :: nat
  completed :: bool

text \<open>What the handlers print, report through the messages framework, or mail.\<close>

datatype py_error =
    ValueError string
  | ValidationError string
  | IntegrityError
  | IndexError
  | RelatedObjectDoesNotExist
  | DoesNotExist

datatype log_entry =
    PermissionNotFound string
  | ErrorCreatingUser py_error
  | MailFailed
  | MessageSuccess string

record mail =
  mail_to :: string
  mail_temp_password :: string

text \<open>
  The persistent store: one list of rows per table, the names of the rows of
  \<^verbatim>\<open>Role\<close>, \<^verbatim>\<open>Group\<close> and \<^verbatim>\<open>Permission\<close> (each unique in its table), and
  what left the process: the mails sent, the lines printed and the messages shown.
  \<open>user_id_seq\<close> and \<open>clinic_id_seq\<close> are the largest primary keys the user and
  the clinic table have ever held (the sequence behind an \<^verbatim>\<open>AutoField\<close>), and
  \<open>mail_up\<close> says whether \<^verbatim>\<open>send_mail\<close> succeeds.
\<close>

record store =
  users :: "user list"
  roles :: "string list"
  auth_groups :: "string list"
  auth_permissions :: "string list"
  clinics :: "clinic list"
  therapist_profiles :: "therapist_profile list"
  parent_profiles :: "parent_profile list"
  children :: "child list"
  goals :: "goal list"
  tasks :: "task list"
  assignments :: "assignment list"
  user_id_seq :: nat
  clinic_id_seq :: nat
  outbox :: "mail list"
  log :: "log_entry list"
  mail_up :: bool

section \<open>Access control: the admin classes\<close>

text \<open>
  The reverse one-to-one accessors \<^verbatim>\<open>user.clinic_admin\<close>,
  \<^verbatim>\<open>user.therapist_profile\<close> and \<^verbatim>\<open>user.parent_profile\<close>: the row whose link is
  this user, and \<^verbatim>\<open>RelatedObjectDoesNotExist\<close> (an \<^verbatim>\<open>AttributeError\<close>) when there
  is none. \<^verbatim>\<open>hasattr\<close> is true when the access does not raise.
\<close>

definition user_clinic_admin :: "store \<Rightarrow> user \<Rightarrow> py_error + clinic" where
  "user_clinic_admin s u =
     (case find (\<lambda>c. clinic_admin c = Some (uid u)) (clinics s) of
        None \<Rightarrow> Inl RelatedObjectDoesNotExist
      | Some c \<Rightarrow> Inr c)"

definition user_therapist_profile :: "store \<Rightarrow> user \<Rightarrow> py_error + therapist_profile" where
  "user_therapist_profile s u =
     (case find (\<lambda>t. therapist_user t = Some (uid u)) (therapist_profiles s) of
        None \<Rightarrow> Inl RelatedObjectDoesNotExist
      | Some t \<Rightarrow> Inr t)"

definition user_parent_profile :: "store \<Rightarrow> user \<Rightarrow> py_error + parent_profile" where
  "user_parent_profile s u =
     (case find (\<lambda>p. parent_user p = Some (uid u)) (parent_profiles s) of
        None \<Rightarrow> Inl RelatedObjectDoesNotExist
      | Some p \<Rightarrow> Inr p)"

definition hasattr :: "py_error + 'a \<Rightarrow> bool" where
  "hasattr access = (case access of Inl _ \<Rightarrow> False | Inr _ \<Rightarrow> True)"

text \<open>
  Django's \<^verbatim>\<open>user.has_perm\<close> with the model backend, which the inherited
  \<^verbatim>\<open>ModelAdmin.has_view_permission\<close> asks: an inactive user has no permission, an
  active superuser has every one, anyone else the ones granted to the user (the groups
  of this code are created by name and are given no permission).
\<close>

definition has_perm :: "user \<Rightarrow> string \<Rightarrow> bool" where
  "has_perm u codename =
     (is_active u \<and> (is_superuser u \<or> codename \<in> set (user_permissions u)))"

definition ModelAdmin_has_view_permission :: "user \<Rightarrow> string \<Rightarrow> bool" where
  "ModelAdmin_has_view_permission u model_name =
     (has_perm u (''view_'' @ model_name) \<or> has_perm u (''change_'' @ model_name))"

text \<open>The forward relations \<^verbatim>\<open>assignment.child\<close>, \<^verbatim>\<open>child.parent\<close>,
  \<^verbatim>\<open>goal.child\<close> and \<^verbatim>\<open>task.goal\<close>.\<close>

definition get_child :: "store \<Rightarrow> nat \<Rightarrow> child option" where
  "get_child s i = find (\<lambda>c. child_id c = i) (children s)"


definition get_goal :: "store \<Rightarrow> nat \<Rightarrow> goal option" where
  "get_goal s i = find (\<lambda>g. goal_id g = i) (goals s)"

subsection \<open>\<^verbatim>\<open>ClinicAdmin\<close> (clinic/admin.py)\<close>

definition ClinicAdmin_has_module_permission :: "user \<Rightarrow> bool" where
  "ClinicAdmin_has_module_permission u =
     (if \<not> is_authenticated u then False
      else if is_superuser u then True
      else case role u of
             Some r \<Rightarrow> r \<in> set [''Neuvii Admin'', ''Clinic Admin'']
           | None \<Rightarrow> False)"

definition ClinicAdmin_has_view_permission :: "store \<Rightarrow> user \<Rightarrow> clinic option \<Rightarrow> py_error + bool" where
  "ClinicAdmin_has_view_permission s u obj =
     (if \<not> ClinicAdmin_has_module_permission u then Inr False
      else if role u = Some ''Neuvii Admin'' then Inr True
      else if role u = Some ''Clinic Admin'' \<and> obj = None then Inr True
      else if role u = Some ''Clinic Admin'' \<and> hasattr (user_clinic_admin s u) then
        (case user_clinic_admin s u of
           Inl e \<Rightarrow> Inl e
         | Inr c \<Rightarrow> Inr (case obj of None \<Rightarrow> False
                         | Some ob \<Rightarrow> clinic_pk ob \<noteq> None \<and> clinic_pk ob = clinic_pk c))
      else Inr False)"

definition ClinicAdmin_has_add_permission :: "user \<Rightarrow> bool" where
  "ClinicAdmin_has_add_permission u =
     (if \<not> is_authenticated u then False
      else if is_superuser u then True
      else role u = Some ''Neuvii Admin'')"


definition ClinicAdmin_has_delete_permission :: "user \<Rightarrow> bool" where
  "ClinicAdmin_has_delete_permission u =
     (if \<not> ClinicAdmin_has_module_permission u then False
      else role u = Some ''Neuvii Admin'')"

definition ClinicAdmin_get_queryset :: "store \<Rightarrow> user \<Rightarrow> py_error + clinic list" where
  "ClinicAdmin_get_queryset s u =
     (if \<not> is_authenticated u then Inr []
      else if role u = None then Inr []
      else if is_superuser u \<or> role u = Some ''Neuvii Admin'' then Inr (clinics s)
      else if role u = Some ''Clinic Admin'' \<and> hasattr (user_clinic_admin s u) then
        (case user_clinic_admin s u of
           Inl e \<Rightarrow> Inl e
         | Inr c \<Rightarrow> Inr (filter (\<lambda>x. clinic_pk x = clinic_pk c) (clinics s)))
      else Inr [])"

text \<open>
  A filter across a foreign key (\<^verbatim>\<open>child__clinic=...\<close>, \<^verbatim>\<open>goal__child__clinic=...\<close>)
  is an inner join: a row is kept when the row it points to exists and satisfies the
  condition. A filter across the reverse relation \<^verbatim>\<open>children__...\<close>, made
  \<^verbatim>\<open>distinct()\<close>, keeps a parent with at least one such child.
\<close>

definition child_where :: "store \<Rightarrow> nat \<Rightarrow> (child \<Rightarrow> bool) \<Rightarrow> bool" where
  "child_where s i P = (case get_child s i of None \<Rightarrow> False | Some c \<Rightarrow> P c)"

definition goal_child_where :: "store \<Rightarrow> nat \<Rightarrow> (child \<Rightarrow> bool) \<Rightarrow> bool" where
  "goal_child_where s i P =
     (case get_goal s i of None \<Rightarrow> False | Some g \<Rightarrow> child_where s (goal_child g) P)"

definition children_where :: "store \<Rightarrow> parent_profile \<Rightarrow> (child \<Rightarrow> bool) \<Rightarrow> bool" where
  "children_where s p P = list_ex (\<lambda>c. child_parent c = parent_id p \<and> P c) (children s)"

subsection \<open>\<^verbatim>\<open>TherapistProfileAdmin\<close> (therapy/admin.py)\<close>

definition TherapistProfileAdmin_has_module_permission :: "user \<Rightarrow> bool" where
  "TherapistProfileAdmin_has_module_permission u =
     (if \<not> is_authenticated u then False
      else if is_superuser u then True
      else case role u of
             Some r \<Rightarrow> r \<in> set [''Neuvii Admin'', ''Clinic Admin'', ''Therapist'']
           | None \<Rightarrow> False)"

definition TherapistProfileAdmin_has_view_permission :: "user \<Rightarrow> bool" where
  "TherapistProfileAdmin_has_view_permission u =
     (if \<not> TherapistProfileAdmin_has_module_permission u then False
      else if role u = Some ''Neuvii Admin'' then True
      else ModelAdmin_has_view_permission u ''therapistprofile'')"

definition TherapistProfileAdmin_has_add_permission :: "user \<Rightarrow> bool" where
  "TherapistProfileAdmin_has_add_permission u =
     (if \<not> TherapistProfileAdmin_has_module_permission u then False
      else case role u of
             Some r \<Rightarrow> (if r = ''Neuvii Admin'' then True else r \<in> set [''Clinic Admin''])
           | None \<Rightarrow> False)"

definition TherapistProfileAdmin_has_change_permission :: "user \<Rightarrow> bool" where
  "TherapistProfileAdmin_has_change_permission u =
     (if \<not> TherapistProfileAdmin_has_module_permission u then False
      else if role u = Some ''Neuvii Admin'' then True
      else case role u of
             Some r \<Rightarrow> r \<in> set [''Clinic Admin'']
           | None \<Rightarrow> False)"

definition TherapistProfileAdmin_has_delete_permission :: "user \<Rightarrow> bool" where
  "TherapistProfileAdmin_has_delete_permission u =
     (if \<not> TherapistProfileAdmin_has_module_permission u then False
      else case role u of
             Some r \<Rightarrow> r = ''Neuvii Admin''
           | None \<Rightarrow> False)"

definition TherapistProfileAdmin_get_queryset :: "store \<Rightarrow> user \<Rightarrow> py_error + therapist_profile list" where
  "TherapistProfileAdmin_get_queryset s u =
     (if \<not> is_authenticated u then Inr []
      else if role u = None then Inr []
      else if role u = Some ''Neuvii Admin'' then Inr (therapist_profiles s)
      else if role u = Some ''Clinic Admin'' then
        (if hasattr (user_clinic_admin s u) then
           (case user_clinic_admin s u of
              Inl e \<Rightarrow> Inl e
            | Inr c \<Rightarrow> Inr (filter (\<lambda>t. clinic_pk c \<noteq> None \<and> therapist_clinic t = clinic_pk c)
                              (therapist_profiles s)))
         else Inr [])
      else if role u = Some ''Therapist'' then
        (if hasattr (user_therapist_profile s u) then
           (case user_therapist_profile s u of
              Inl e \<Rightarrow> Inl e
            | Inr t \<Rightarrow> Inr (filter (\<lambda>x. therapist_id x = therapist_id t) (therapist_profiles s)))
         else Inr [])
      else Inr [])"

subsection \<open>\<^verbatim>\<open>ParentProfileAdmin\<close>\<close>

definition ParentProfileAdmin_has_module_permission :: "user \<Rightarrow> bool" where
  "ParentProfileAdmin_has_module_permission u =
     (if \<not> is_authenticated u then False
      else if is_superuser u then True
      else case role u of
             Some r \<Rightarrow> r \<in> set [''Neuvii Admin'', ''Clinic Admin'', ''Therapist'', ''Parent'']
           | None \<Rightarrow> False)"

definition ParentProfileAdmin_has_view_permission :: "user \<Rightarrow> bool" where
  "ParentProfileAdmin_has_view_permission u =
     (if \<not> ParentProfileAdmin_has_module_permission u then False
      else if role u = Some ''Neuvii Admin'' then True
      else ModelAdmin_has_view_permission u ''parentprofile'')"

definition ParentProfileAdmin_has_add_permission :: "user \<Rightarrow> bool" where
  "ParentProfileAdmin_has_add_permission u =
     (if \<not> ParentProfileAdmin_has_module_permission u then False
      else case role u of
             Some r \<Rightarrow> (if r = ''Neuvii Admin'' then True else r \<in> set [''Clinic Admin''])
           | None \<Rightarrow> False)"

definition ParentProfileAdmin_has_change_permission :: "user \<Rightarrow> bool" where
  "ParentProfileAdmin_has_change_permission u =
     (if \<not> ParentProfileAdmin_has_module_permission u then False
      else if role u = Some ''Neuvii Admin'' then True
      else case role u of
             Some r \<Rightarrow> r \<in> set [''Clinic Admin'']
           | None \<Rightarrow> False)"

definition ParentProfileAdmin_has_delete_permission :: "user \<Rightarrow> bool" where
  "ParentProfileAdmin_has_delete_permission u =
     (if \<not> ParentProfileAdmin_has_module_permission u then False
      else case role u of
             Some r \<Rightarrow> r = ''Neuvii Admin''
           | None \<Rightarrow> False)"

definition ParentProfileAdmin_get_queryset :: "store \<Rightarrow> user \<Rightarrow> py_error + parent_profile list" where
  "ParentProfileAdmin_get_queryset s u =
     (if \<not> is_authenticated u then Inr []
      else if role u = None then Inr []
      else if role u = Some ''Neuvii Admin'' then Inr (parent_profiles s)
      else if role u = Some ''Clinic Admin'' then
        (if hasattr (user_clinic_admin s u) then
           (case user_clinic_admin s u of
              Inl e \<Rightarrow> Inl e
            | Inr c \<Rightarrow> Inr (filter (\<lambda>p. children_where s p (\<lambda>ch. Some (child_clinic ch) = clinic_pk c))
                              (parent_profiles s)))
         else Inr [])
      else if role u = Some ''Therapist'' then
        (if hasattr (user_therapist_profile s u) then
           (case user_therapist_profile s u of
              Inl e \<Rightarrow> Inl e
            | Inr t \<Rightarrow> Inr (filter (\<lambda>p. children_where s p
                                          (\<lambda>ch. assigned_therapist ch = Some (therapist_id t)))
                              (parent_profiles s)))
         else Inr [])
      else if role u = Some ''Parent'' then
        (if hasattr (user_parent_profile s u) then
           (case user_parent_profile s u of
              Inl e \<Rightarrow> Inl e
            | Inr p \<Rightarrow> Inr (filter (\<lambda>x. parent_id x = parent_id p) (parent_profiles s)))
         else Inr [])
      else Inr [])"

subsection \<open>\<^verbatim>\<open>ChildAdmin\<close>\<close>

definition ChildAdmin_has_module_permission :: "user \<Rightarrow> bool" where
  "ChildAdmin_has_module_permission u =
     (if \<not> is_authenticated u then False
      else if is_superuser u then True
      else case role u of
             Some r \<Rightarrow> r = ''Neuvii Admin''
           | None \<Rightarrow> False)"

definition ChildAdmin_has_view_permission :: "user \<Rightarrow> bool" where
  "ChildAdmin_has_view_permission u =
     (if \<not> ChildAdmin_has_module_permission u then False else True)"

definition ChildAdmin_has_add_permission :: "user \<Rightarrow> bool" where
  "ChildAdmin_has_add_permission u =
     (if \<not> ChildAdmin_has_module_permission u then False else True)"

definition ChildAdmin_has_change_permission :: "user \<Rightarrow> bool" where
  "ChildAdmin_has_change_permission u =
     (if \<not> ChildAdmin_has_module_permission u then False else True)"

definition ChildAdmin_has_delete_permission :: "user \<Rightarrow> bool" where
  "ChildAdmin_has_delete_permission u =
     (if \<not> ChildAdmin_has_module_permission u then False else True)"

definition ChildAdmin_get_queryset :: "store \<Rightarrow> user \<Rightarrow> py_error + child list" where
  "ChildAdmin_get_queryset s u =
     (if \<not> is_authenticated u then Inr []
      else if role u = None then Inr []
      else if role u = Some ''Neuvii Admin'' then Inr (children s)
      else Inr [])"

subsection \<open>\<^verbatim>\<open>AssignmentAdmin\<close>\<close>

definition AssignmentAdmin_has_module_permission :: "user \<Rightarrow> bool" where
  "AssignmentAdmin_has_module_permission u =
     (if \<not> is_authenticated u then False
      else if is_superuser u then True
      else case role u of
             Some r \<Rightarrow> r \<in> set [''Neuvii Admin'', ''Clinic Admin'', ''Therapist'', ''Parent'']
           | None \<Rightarrow> False)"


definition AssignmentAdmin_has_add_permission :: "user \<Rightarrow> bool" where
  "AssignmentAdmin_has_add_permission u =
     (if \<not> AssignmentAdmin_has_module_permission u then False
      else case role u of
             Some r \<Rightarrow> (if r = ''Neuvii Admin'' then True
                        else r \<in> set [''Clinic Admin'', ''Therapist''])
           | None \<Rightarrow> False)"


definition AssignmentAdmin_has_delete_permission :: "user \<Rightarrow> bool" where
  "AssignmentAdmin_has_delete_permission u =
     (if \<not> AssignmentAdmin_has_module_permission u then False
      else case role u of
             Some r \<Rightarrow> r = ''Neuvii Admin''
           | None \<Rightarrow> False)"

definition AssignmentAdmin_get_queryset :: "store \<Rightarrow> user \<Rightarrow> py_error + assignment list" where
  "AssignmentAdmin_get_queryset s u =
     (if \<not> is_authenticated u then Inr []
      else if role u = None then Inr []
      else if role u = Some ''Neuvii Admin'' then Inr (assignments s)
      else if role u = Some ''Clinic Admin'' then
        (if hasattr (user_clinic_admin s u) then
           (case user_clinic_admin s u of
              Inl e \<Rightarrow> Inl e
            | Inr c \<Rightarrow> Inr (filter (\<lambda>a. child_where s (assignment_child a)
                                          (\<lambda>ch. Some (child_clinic ch) = clinic_pk c))
                              (assignments s)))
         else Inr [])
      else if role u = Some ''Therapist'' then
        (if hasattr (user_therapist_profile s u) then
           (case user_therapist_profile s u of
              Inl e \<Rightarrow> Inl e
            | Inr t \<Rightarrow> Inr (filter (\<lambda>a. assignment_therapist a = therapist_id t) (assignments s)))
         else Inr [])
      else if role u = Some ''Parent'' then
        (if hasattr (user_parent_profile s u) then
           (case user_parent_profile s u of
              Inl e \<Rightarrow> Inl e
            | Inr p \<Rightarrow> Inr (filter (\<lambda>a. child_where s (assignment_child a)
                                          (\<lambda>ch. child_parent ch = parent_id p))
                              (assignments s)))
         else Inr [])
      else Inr [])"

subsection \<open>\<^verbatim>\<open>GoalAdmin\<close>\<close>

definition GoalAdmin_has_module_permission :: "user \<Rightarrow> bool" where
  "GoalAdmin_has_module_permission u =
     (if \<not> is_authenticated u then False
      else if is_superuser u then True
      else case role u of
             Some r \<Rightarrow> r \<in> set [''Neuvii Admin'', ''Clinic Admin'', ''Therapist'', ''Parent'']
           | None \<Rightarrow> False)"


definition GoalAdmin_has_add_permission :: "user \<Rightarrow> bool" where
  "GoalAdmin_has_add_permission u =
     (if \<not> GoalAdmin_has_module_permission u then False
      else case role u of
             Some r \<Rightarrow> (if r = ''Neuvii Admin'' then True
                        else r \<in> set [''Clinic Admin'', ''Therapist''])
           | None \<Rightarrow> False)"

definition GoalAdmin_has_change_permission :: "user \<Rightarrow> bool" where
  "GoalAdmin_has_change_permission u =
     (if \<not> GoalAdmin_has_module_permission u then False
      else case role u of
             Some r \<Rightarrow> (if r = ''Neuvii Admin'' then True
                        else if r = ''Parent'' then False
                        else r \<in> set [''Clinic Admin'', ''Therapist''])
           | None \<Rightarrow> False)"

definition GoalAdmin_has_delete_permission :: "user \<Rightarrow> bool" where
  "GoalAdmin_has_delete_permission u =
     (if \<not> GoalAdmin_has_module_permission u then False
      else case role u of
             Some r \<Rightarrow> r = ''Neuvii Admin''
           | None \<Rightarrow> False)"

definition GoalAdmin_get_queryset :: "store \<Rightarrow> user \<Rightarrow> py_error + goal list" where
  "GoalAdmin_get_queryset s u =
     (if \<not> is_authenticated u then Inr []
      else if role u = None then Inr []
      else if role u = Some ''Neuvii Admin'' then Inr (goals s)
      else if role u = Some ''Clinic Admin'' then
        (if hasattr (user_clinic_admin s u) then
           (case user_clinic_admin s u of
              Inl e \<Rightarrow> Inl e
            | Inr c \<Rightarrow> Inr (filter (\<lambda>g. child_where s (goal_child g)
                                          (\<lambda>ch. Some (child_clinic ch) = clinic_pk c))
                              (goals s)))
         else Inr [])
      else if role u = Some ''Therapist'' then
        (if hasattr (user_therapist_profile s u) then
           (case user_therapist_profile s u of
              Inl e \<Rightarrow> Inl e
            | Inr t \<Rightarrow> Inr (filter (\<lambda>g. child_where s (goal_child g)
                                          (\<lambda>ch. assigned_therapist ch = Some (therapist_id t)))
                              (goals s)))
         else Inr [])
      else if role u = Some ''Parent'' then
        (if hasattr (user_parent_profile s u) then
           (case user_parent_profile s u of
              Inl e \<Rightarrow> Inl e
            | Inr p \<Rightarrow> Inr (filter (\<lambda>g. child_where s (goal_child g)
                                          (\<lambda>ch. child_parent ch = parent_id p))
                              (goals s)))
         else Inr [])
      else Inr [])"

subsection \<open>\<^verbatim>\<open>TaskAdmin\<close>\<close>

definition TaskAdmin_has_module_permission :: "user \<Rightarrow> bool" where
  "TaskAdmin_has_module_permission u =
     (if \<not> is_authenticated u then False
      else if is_superuser u then True
      else case role u of
             Some r \<Rightarrow> r \<in> set [''Neuvii Admin'', ''Clinic Admin'', ''Therapist'']
           | None \<Rightarrow> False)"

definition TaskAdmin_has_view_permission :: "user \<Rightarrow> bool" where
  "TaskAdmin_has_view_permission u =
     (if \<not> TaskAdmin_has_module_permission u then False else True)"

definition TaskAdmin_has_add_permission :: "user \<Rightarrow> bool" where
  "TaskAdmin_has_add_permission u =
     (if \<not> TaskAdmin_has_module_permission u then False
      else case role u of
             Some r \<Rightarrow> (if r = ''Neuvii Admin'' then True
                        else r \<in> set [''Clinic Admin'', ''Therapist''])
           | None \<Rightarrow> False)"

definition TaskAdmin_has_change_permission :: "user \<Rightarrow> bool" where
  "TaskAdmin_has_change_permission u =
     (if \<not> TaskAdmin_has_module_permission u then False
      else case role u of
             Some r \<Rightarrow> (if r = ''Neuvii Admin'' then True
                        else r \<in> set [''Clinic Admin'', ''Therapist''])
           | None \<Rightarrow> False)"

definition TaskAdmin_has_delete_permission :: "user \<Rightarrow> bool" where
  "TaskAdmin_has_delete_permission u =
     (if \<not> TaskAdmin_has_module_permission u then False
      else case role u of
             Some r \<Rightarrow> r = ''Neuvii Admin''
           | None \<Rightarrow> False)"

definition TaskAdmin_get_queryset :: "store \<Rightarrow> user \<Rightarrow> py_error + task list" where
  "TaskAdmin_get_queryset s u =
     (if \<not> is_authenticated u then Inr []
      else if role u = None then Inr []
      else if role u = Some ''Neuvii Admin'' then Inr (tasks s)
      else if role u = Some ''Clinic Admin'' then
        (if hasattr (user_clinic_admin s u) then
           (case user_clinic_admin s u of
              Inl e \<Rightarrow> Inl e
            | Inr c \<Rightarrow> Inr (filter (\<lambda>t. goal_child_where s (task_goal t)
                                          (\<lambda>ch. Some (child_clinic ch) = clinic_pk c))
                              (tasks s)))
         else Inr [])
      else if role u = Some ''Therapist'' then
        (if hasattr (user_therapist_profile s u) then
           (case user_therapist_profile s u of
              Inl e \<Rightarrow> Inl e
            | Inr t \<Rightarrow> Inr (filter (\<lambda>x. goal_child_where s (task_goal x)
                                          (\<lambda>ch. assigned_therapist ch = Some (therapist_id t)))
                              (tasks s)))
         else Inr [])
      else Inr [])"

subsection \<open>\<^verbatim>\<open>TherapistDataMixin\<close> (neuvii_backend/admin_mixins.py)\<close>

text \<open>
  The mixin is generic in the model of the queryset and asks the model class for its
  attributes with \<^verbatim>\<open>hasattr(qs.model, ...)\<close>. A model is described by the foreign keys
  it has among \<^verbatim>\<open>clinic\<close>, \<^verbatim>\<open>assigned_therapist\<close>, \<^verbatim>\<open>therapist\<close>, \<^verbatim>\<open>parent\<close> and
  \<^verbatim>\<open>child\<close>: \<open>None\<close> when the class has no such attribute, and otherwise the
  function reading the key of a row.
\<close>

record 'a model_class =
  attr_clinic :: "('a \<Rightarrow> nat option) option"
  attr_assigned_therapist :: "('a \<Rightarrow> nat option) option"
  attr_therapist :: "('a \<Rightarrow> nat option) option"
  attr_parent :: "('a \<Rightarrow> nat option) option"
  attr_child :: "('a \<Rightarrow> nat option) option"

definition get_therapist :: "store \<Rightarrow> nat \<Rightarrow> therapist_profile option" where
  "get_therapist s i = find (\<lambda>t. therapist_id t = i) (therapist_profiles s)"

definition TherapistDataMixin_get_queryset ::
  "store \<Rightarrow> user \<Rightarrow> 'a model_class \<Rightarrow> 'a list \<Rightarrow> py_error + 'a list" where
  "TherapistDataMixin_get_queryset s u model qs =
     (if \<not> is_authenticated u then Inr []
      else if is_superuser u then Inr qs
      else if role u = None then Inr []
      else if role u = Some ''Neuvii Admin'' then Inr qs
      else if role u = Some ''Clinic Admin'' then
        (if hasattr (user_clinic_admin s u) then
           (case user_clinic_admin s u of
              Inl e \<Rightarrow> Inl e
            | Inr c \<Rightarrow>
               (case attr_clinic model of
                  Some clinic_of \<Rightarrow>
                    Inr (filter (\<lambda>x. clinic_pk c \<noteq> None \<and> clinic_of x = clinic_pk c) qs)
                | None \<Rightarrow>
                   (case attr_assigned_therapist model of
                      Some therapist_of \<Rightarrow>
                        Inr (filter (\<lambda>x. case therapist_of x of
                                            None \<Rightarrow> False
                                          | Some i \<Rightarrow>
                                             (case get_therapist s i of
                                                None \<Rightarrow> False
                                              | Some t \<Rightarrow> clinic_pk c \<noteq> None \<and>
                                                          therapist_clinic t = clinic_pk c)) qs)
                    | None \<Rightarrow> Inr [])))
         else Inr [])
      else if role u = Some ''Therapist'' then
        (if hasattr (user_therapist_profile s u) then
           (case user_therapist_profile s u of
              Inl e \<Rightarrow> Inl e
            | Inr t \<Rightarrow>
               (case attr_assigned_therapist model of
                  Some therapist_of \<Rightarrow>
                    Inr (filter (\<lambda>x. therapist_of x = Some (therapist_id t)) qs)
                | None \<Rightarrow>
                   (case attr_therapist model of
                      Some therapist_of \<Rightarrow>
                        Inr (filter (\<lambda>x. therapist_of x = Some (therapist_id t)) qs)
                    | None \<Rightarrow> Inr [])))
         else Inr [])
      else if role u = Some ''Parent'' then
        (if hasattr (user_parent_profile s u) then
           (case user_parent_profile s u of
              Inl e \<Rightarrow> Inl e
            | Inr p \<Rightarrow>
               (case attr_parent model of
                  Some parent_of \<Rightarrow>
                    Inr (filter (\<lambda>x. parent_of x = Some (parent_id p)) qs)
                | None \<Rightarrow>
                   (case attr_child model of
                      Some child_of \<Rightarrow>
                        Inr (filter (\<lambda>x. case child_of x of
                                            None \<Rightarrow> False
                                          | Some i \<Rightarrow>
                                              child_where s i (\<lambda>ch. child_parent ch = parent_id p)) qs)
                    | None \<Rightarrow> Inr [])))
         else Inr [])
      else Inr [])"

section \<open>Deletion: the \<^verbatim>\<open>on_delete\<close> policies of the models\<close>

text \<open>
  Deleting a row deletes every row that points to it through a foreign key declared
  \<^verbatim>\<open>on_delete=models.CASCADE\<close>, and so on from those rows; a key declared
  \<^verbatim>\<open>SET_NULL\<close> is set to null instead. The policy acts on the rows that hold the key
  when the row they point to is deleted, never the other way round. The declarations:
  \<^verbatim>\<open>Assignment.child\<close>, \<^verbatim>\<open>Assignment.therapist\<close>, \<^verbatim>\<open>Assignment.task\<close>,
  \<^verbatim>\<open>Task.goal\<close>, \<^verbatim>\<open>Goal.child\<close>, \<^verbatim>\<open>Child.clinic\<close>, \<^verbatim>\<open>Child.parent\<close>,
  \<^verbatim>\<open>TherapistProfile.user\<close> and \<^verbatim>\<open>ParentProfile.user\<close> cascade;
  \<^verbatim>\<open>Child.assigned_therapist\<close>, \<^verbatim>\<open>TherapistProfile.clinic\<close>,
  \<^verbatim>\<open>Clinic.clinic_admin\<close> and \<^verbatim>\<open>User.role\<close> are set to null.
  Each function deletes the rows of one table whose primary key is in \<open>ids\<close>.
\<close>

definition Task_delete :: "nat list \<Rightarrow> store \<Rightarrow> store" where
  "Task_delete ids s =
     s\<lparr>assignments := filter (\<lambda>a. assignment_task a \<notin> set ids) (assignments s),
       tasks := filter (\<lambda>t. task_id t \<notin> set ids) (tasks s)\<rparr>"

definition Goal_delete :: "nat list \<Rightarrow> store \<Rightarrow> store" where
  "Goal_delete ids s =
     (let s1 = Task_delete (map task_id (filter (\<lambda>t. task_goal t \<in> set ids) (tasks s))) s
      in s1\<lparr>goals := filter (\<lambda>g. goal_id g \<notin> set ids) (goals s1)\<rparr>)"

definition Child_delete :: "nat list \<Rightarrow> store \<Rightarrow> store" where
  "Child_delete ids s =
     (let s1 = Goal_delete (map goal_id (filter (\<lambda>g. goal_child g \<in> set ids) (goals s))) s
      in s1\<lparr>assignments := filter (\<lambda>a. assignment_child a \<notin> set ids) (assignments s1),
            children := filter (\<lambda>c. child_id c \<notin> set ids) (children s1)\<rparr>)"

definition ParentProfile_delete :: "nat list \<Rightarrow> store \<Rightarrow> store" where
  "ParentProfile_delete ids s =
     (let s1 = Child_delete (map child_id (filter (\<lambda>c. child_parent c \<in> set ids) (children s))) s
      in s1\<lparr>parent_profiles := filter (\<lambda>p. parent_id p \<notin> set ids) (parent_profiles s1)\<rparr>)"

definition TherapistProfile_delete :: "nat list \<Rightarrow> store \<Rightarrow> store" where
  "TherapistProfile_delete ids s =
     s\<lparr>assignments := filter (\<lambda>a. assignment_therapist a \<notin> set ids) (assignments s),
       children := map (\<lambda>c. case assigned_therapist c of
                               None \<Rightarrow> c
                             | Some t \<Rightarrow> if t \<in> set ids then c\<lparr>assigned_therapist := None\<rparr> else c)
                       (children s),
       therapist_profiles := filter (\<lambda>t. therapist_id t \<notin> set ids) (therapist_profiles s)\<rparr>"

definition User_delete :: "nat list \<Rightarrow> store \<Rightarrow> store" where
  "User_delete ids s =
     (let linked = (\<lambda>l. case l of None \<Rightarrow> False | Some i \<Rightarrow> i \<in> set ids);
          s1 = TherapistProfile_delete
                 (map therapist_id (filter (\<lambda>t. linked (therapist_user t)) (therapist_profiles s))) s;
          s2 = ParentProfile_delete
                 (map parent_id (filter (\<lambda>p. linked (parent_user p)) (parent_profiles s1))) s1
      in s2\<lparr>clinics := map (\<lambda>c. if linked (clinic_admin c) then c\<lparr>clinic_admin := None\<rparr> else c)
                          (clinics s2),
            users := filter (\<lambda>u. uid u \<notin> set ids) (users s2)\<rparr>)"

section \<open>Temporary passwords\<close>

text \<open>
  The constants of Python's \<^verbatim>\<open>string\<close> module. \<^verbatim>\<open>string.punctuation\<close> is the 32
  printable ASCII characters that are neither letters nor digits, in the order of their
  codes: 33 to 47, 58 to 64, 91 to 96 and 123 to 126.
\<close>

definition ascii_lowercase :: string where
  "ascii_lowercase = ''abcdefghijklmnopqrstuvwxyz''"

definition ascii_uppercase :: string where
  "ascii_uppercase = ''ABCDEFGHIJKLMNOPQRSTUVWXYZ''"

definition ascii_letters :: string where
  "ascii_letters = ascii_lowercase @ ascii_uppercase"

definition digits :: string where
  "digits = ''0123456789''"

definition punctuation :: string where
  "punctuation = map char_of ([33..<48] @ [58..<65] @ [91..<97] @ [123..<127] :: nat list)"

text \<open>
  \<^verbatim>\<open>str.islower\<close>, \<^verbatim>\<open>str.isupper\<close> and \<^verbatim>\<open>str.isdigit\<close> on one character, for the
  ASCII characters the generators draw.
\<close>

definition islower :: "char \<Rightarrow> bool" where
  "islower c = (c \<in> set ascii_lowercase)"

definition isupper :: "char \<Rightarrow> bool" where
  "isupper c = (c \<in> set ascii_uppercase)"

definition isdigit :: "char \<Rightarrow> bool" where
  "isdigit c = (c \<in> set digits)"

text \<open>
  The operating system's random source is a sequence \<open>rnd\<close> of numbers, read one per
  call: the call number \<open>i\<close> of \<^verbatim>\<open>secrets.choice(alphabet)\<close> returns the character at
  index \<open>rnd i mod len(alphabet)\<close>. \<open>draw rnd k alphabet n\<close> is
  \<^verbatim>\<open>''.join(secrets.choice(alphabet) for _ in range(n))\<close> after \<open>k\<close> earlier calls.
\<close>

definition secrets_choice :: "nat \<Rightarrow> string \<Rightarrow> char" where
  "secrets_choice r alphabet = alphabet ! (r mod length alphabet)"

definition draw :: "(nat \<Rightarrow> nat) \<Rightarrow> nat \<Rightarrow> string \<Rightarrow> nat \<Rightarrow> string" where
  "draw rnd k alphabet n = map (\<lambda>i. secrets_choice (rnd (k + i)) alphabet) [0..<n]"

text \<open>
  The two alphabets of the generators: letters, digits and \<^verbatim>\<open>string.punctuation\<close> in
  clinic/models.py and clinic/admin.py, letters, digits and \<^verbatim>\<open>!@#$%^&*\<close> in
  users/models.py.
\<close>

abbreviation admin_alphabet :: string where
  "admin_alphabet \<equiv> ascii_letters @ digits @ punctuation"

abbreviation user_alphabet :: string where
  "user_alphabet \<equiv> ascii_letters @ digits @ map char_of [33, 64, 35, 36, 37, 94, 38, 42 :: nat]"

text \<open>\<^verbatim>\<open>generate_temp_password\<close> of clinic/models.py.\<close>

definition models_generate_temp_password :: "(nat \<Rightarrow> nat) \<Rightarrow> nat \<Rightarrow> string" where
  "models_generate_temp_password rnd len =
     draw rnd 0 (ascii_letters @ digits @ punctuation) len"

text \<open>
  \<^verbatim>\<open>User.generate_temp_password\<close> of users/models.py: it sets the password of the
  user object and returns it. The stored password stands for its hash.
\<close>

definition User_generate_temp_password :: "(nat \<Rightarrow> nat) \<Rightarrow> user \<Rightarrow> user \<times> string" where
  "User_generate_temp_password rnd self =
     (let alphabet = ascii_letters @ digits @ map char_of [33, 64, 35, 36, 37, 94, 38, 42 :: nat];
          password = draw rnd 0 alphabet 12
      in (self\<lparr>password := password\<rparr>, password))"

text \<open>
  \<^verbatim>\<open>generate_temp_password\<close> of clinic/admin.py: \<^verbatim>\<open>while True\<close>, draw a password and
  return it when it has a lowercase letter, an uppercase letter, a digit and a
  punctuation character (\<open>len\<close> is its parameter \<^verbatim>\<open>length\<close>, 12 at every call). The loop has no bound, so its result is an option: \<open>None\<close>
  when no draft is ever accepted.
\<close>

definition acceptable :: "string \<Rightarrow> bool" where
  "acceptable pw =
     (list_ex islower pw \<and> list_ex isupper pw \<and> list_ex isdigit pw \<and>
      list_ex (\<lambda>c. c \<in> set punctuation) pw)"

partial_function (option) generate_loop :: "(nat \<Rightarrow> nat) \<Rightarrow> nat \<Rightarrow> nat \<Rightarrow> string option" where
  "generate_loop rnd len k =
     (let password = draw rnd k (ascii_letters @ digits @ punctuation) len
      in if acceptable password then Some password
         else generate_loop rnd len (k + len))"

declare generate_loop.simps [code]

definition admin_generate_temp_password :: "(nat \<Rightarrow> nat) \<Rightarrow> nat \<Rightarrow> string option" where
  "admin_generate_temp_password rnd len = generate_loop rnd len 0"

text \<open>Two random sources: one whose second draft is accepted, and a constant one.\<close>

definition rnd1 :: "nat \<Rightarrow> nat" where
  "rnd1 i = (if i < 12 then 0 else [0, 26, 52, 62] ! (i mod 4))"

definition rnd0 :: "nat \<Rightarrow> nat" where
  "rnd0 i = 0"

section \<open>Provisioning: user accounts for clinics, therapists and parents\<close>

subsection \<open>Python strings\<close>

text \<open>
  A character is a code point below 256. The truth value of a string,
  \<^verbatim>\<open>str.strip()\<close>, \<^verbatim>\<open>str.split()\<close> without argument (the maximal runs of
  characters that are not whitespace), \<^verbatim>\<open>' '.join\<close> and \<^verbatim>\<open>str.lower()\<close>. The
  whitespace characters below 256 are the codes 9 to 13, 28 to 32, 133 and 160; the
  characters that \<^verbatim>\<open>lower\<close> changes are the codes 65 to 90, 192 to 214 and 216 to
  222, each mapped to the code 32 above it.
\<close>

definition truthy :: "string \<Rightarrow> bool" where
  "truthy x = (x \<noteq> [])"

definition isspace :: "char \<Rightarrow> bool" where
  "isspace c = (of_char c \<in> set [9, 10, 11, 12, 13, 28, 29, 30, 31, 32, 133, 160 :: nat])"

definition strip :: "string \<Rightarrow> string" where
  "strip x = rev (dropWhile isspace (rev (dropWhile isspace x)))"

fun split_from :: "string \<Rightarrow> string \<Rightarrow> string list" where
  "split_from word [] = (if word = [] then [] else [word])"
| "split_from word (c # cs) =
     (if isspace c then (if word = [] then split_from [] cs else word # split_from [] cs)
      else split_from (word @ [c]) cs)"

definition split :: "string \<Rightarrow> string list" where
  "split x = split_from [] x"

fun join :: "string \<Rightarrow> string list \<Rightarrow> string" where
  "join sep [] = []"
| "join sep [x] = x"
| "join sep (x # y # ys) = x @ sep @ join sep (y # ys)"

definition lower :: "string \<Rightarrow> string" where
  "lower x =
     map (\<lambda>c. if of_char c \<in> set ([65..<91] @ [192..<215] @ [216..<223] :: nat list)
              then char_of (of_char c + (32 :: nat)) else c) x"

text \<open>
  Django's \<^verbatim>\<open>BaseUserManager.normalize_email\<close>, which \<^verbatim>\<open>create_user\<close> calls: the
  address is stripped and the part after its last \<^verbatim>\<open>@\<close> is put in lower case; an
  address without \<^verbatim>\<open>@\<close> is returned as it is.
\<close>

definition normalize_email :: "string \<Rightarrow> string" where
  "normalize_email e =
     (if CHR ''@'' \<in> set (strip e) then
        (let r = rev (strip e);
             domain_part = rev (takeWhile (\<lambda>c. c \<noteq> CHR ''@'') r);
             email_name = rev (tl (dropWhile (\<lambda>c. c \<noteq> CHR ''@'') r))
         in email_name @ ''@'' @ lower domain_part)
      else e)"

subsection \<open>The tables of roles, groups, permissions and users\<close>

text \<open>
  A new row gets the key after the largest one its table has ever held, so that the key
  of a deleted row is not given again: \<open>seq\<close> is the sequence of the table and \<open>ids\<close>
  are the keys of its rows.
\<close>

definition new_pk :: "nat \<Rightarrow> nat list \<Rightarrow> nat" where
  "new_pk seq ids = Suc (max seq (fold max ids 0))"

definition new_user_pk :: "store \<Rightarrow> nat" where
  "new_user_pk s = new_pk (user_id_seq s) (map uid (users s))"

definition new_clinic_pk :: "store \<Rightarrow> nat" where
  "new_clinic_pk s =
     new_pk (clinic_id_seq s)
       (concat (map (\<lambda>c. case clinic_pk c of None \<Rightarrow> [] | Some i \<Rightarrow> [i]) (clinics s)))"

definition Group_get_or_create :: "string \<Rightarrow> store \<Rightarrow> store" where
  "Group_get_or_create name s =
     (if name \<in> set (auth_groups s) then s else s\<lparr>auth_groups := auth_groups s @ [name]\<rparr>)"

text \<open>The \<^verbatim>\<open>post_save\<close> handlers of users/models.py, for a row that was created.\<close>

definition create_user_groups :: "store \<Rightarrow> store" where
  "create_user_groups s =
     fold Group_get_or_create [''neuvii_admin'', ''clinic_admin'', ''therapist'', ''parent''] s"

definition create_roles_and_groups :: "string \<Rightarrow> store \<Rightarrow> store" where
  "create_roles_and_groups name s =
     (case map_of [(''Neuvii Admin'', ''neuvii_admin''), (''Clinic Admin'', ''clinic_admin''),
                   (''Therapist'', ''therapist''), (''Parent'', ''parent'')] name of
        Some group_name \<Rightarrow> Group_get_or_create group_name s
      | None \<Rightarrow> s)"

definition Role_get_or_create :: "string \<Rightarrow> store \<Rightarrow> store" where
  "Role_get_or_create name s =
     (if name \<in> set (roles s) then s
      else create_roles_and_groups name (s\<lparr>roles := roles s @ [name]\<rparr>))"

text \<open>
  A user object that has not been saved, with the defaults of the model
  (\<^verbatim>\<open>password_reset_required\<close> defaults to true, \<^verbatim>\<open>is_active\<close> to true).
\<close>

definition new_user :: user where
  "new_user =
     \<lparr>uid = 0, email = [], password = [], first_name = [], last_name = [], role = None,
      is_staff = False, is_active = True, is_superuser = False, is_authenticated = True,
      password_reset_required = True, user_groups = [], user_permissions = []\<rparr>"

text \<open>The primary key and the email of every row of the user table, in the order of the rows.\<close>

definition user_keys :: "store \<Rightarrow> (nat \<times> string) list" where
  "user_keys s = map (\<lambda>u. (uid u, email u)) (users s)"

text \<open>
  Saving a new user inserts the row, unless a row has the same email
  (\<^verbatim>\<open>email = models.EmailField(unique=True)\<close>), and runs \<^verbatim>\<open>create_user_groups\<close>. Saving
  a user again writes its fields; the groups and permissions of a user are rows of
  their own tables, written by \<^verbatim>\<open>groups.add\<close> and \<^verbatim>\<open>user_permissions.add\<close>.
\<close>

definition User_insert :: "user \<Rightarrow> store \<Rightarrow> py_error + store \<times> user" where
  "User_insert u s =
     (if email u \<in> set (map email (users s)) then Inl IntegrityError
      else (let u' = u\<lparr>uid := new_user_pk s\<rparr>
            in Inr (create_user_groups (s\<lparr>users := users s @ [u'], user_id_seq := uid u'\<rparr>), u')))"

definition User_save :: "user \<Rightarrow> store \<Rightarrow> store" where
  "User_save u s =
     s\<lparr>users := map (\<lambda>x. if uid x = uid u
                           then u\<lparr>user_groups := user_groups x, user_permissions := user_permissions x\<rparr>
                           else x) (users s)\<rparr>"

definition groups_add :: "nat \<Rightarrow> string \<Rightarrow> store \<Rightarrow> store" where
  "groups_add i name s =
     s\<lparr>users := map (\<lambda>x. if uid x = i then x\<lparr>user_groups := List.insert name (user_groups x)\<rparr>
                           else x) (users s)\<rparr>"

text \<open>
  One round of the loop over the permission names: \<^verbatim>\<open>Permission.objects.get\<close> and
  \<^verbatim>\<open>user_permissions.add\<close>, or the report that the permission was not found.
\<close>

definition grant_permission :: "nat \<Rightarrow> string \<Rightarrow> store \<Rightarrow> store" where
  "grant_permission i codename s =
     (if codename \<in> set (auth_permissions s) then
        s\<lparr>users := map (\<lambda>x. if uid x = i
                              then x\<lparr>user_permissions := List.insert codename (user_permissions x)\<rparr>
                              else x) (users s)\<rparr>
      else s\<lparr>log := log s @ [PermissionNotFound codename]\<rparr>)"

text \<open>\<^verbatim>\<open>CustomUserManager.create_user\<close>; \<open>extra_fields\<close> carries the keyword arguments.\<close>

definition create_user :: "store \<Rightarrow> string \<Rightarrow> string \<Rightarrow> user \<Rightarrow> py_error + store \<times> user" where
  "create_user s email_arg password_arg extra_fields =
     (if \<not> truthy email_arg then Inl (ValueError ''The Email field must be set'')
      else User_insert (extra_fields\<lparr>email := normalize_email email_arg, password := password_arg\<rparr>) s)"

text \<open>\<^verbatim>\<open>User.objects.create\<close>, the manager's inherited method: no check, no normalisation.\<close>

definition User_objects_create :: "store \<Rightarrow> user \<Rightarrow> py_error + store \<times> user" where
  "User_objects_create s kwargs = User_insert kwargs s"

text \<open>
  \<^verbatim>\<open>send_mail\<close> inside the \<^verbatim>\<open>try\<close> of each welcome function: the mail leaves, or the
  failure is reported and nothing else happens.
\<close>

definition send_welcome :: "string \<Rightarrow> string \<Rightarrow> store \<Rightarrow> store" where
  "send_welcome recipient temp_password s =
     (if mail_up s then s\<lparr>outbox := outbox s @ [\<lparr>mail_to = recipient, mail_temp_password = temp_password\<rparr>]\<rparr>
      else s\<lparr>log := log s @ [MailFailed]\<rparr>)"

subsection \<open>The \<^verbatim>\<open>post_save\<close> handler of \<^verbatim>\<open>Clinic\<close> (clinic/models.py)\<close>

definition clinic_signal_permissions :: "string list" where
  "clinic_signal_permissions =
     [''add_therapistprofile'', ''change_therapistprofile'', ''view_therapistprofile'',
      ''add_parentprofile'', ''change_parentprofile'', ''view_parentprofile'',
      ''add_child'', ''change_child'', ''view_child'',
      ''view_clinic'']"

text \<open>
  \<^verbatim>\<open>instance.save(update_fields=['clinic_admin'])\<close>: the link of the row is written.
  The \<^verbatim>\<open>post_save\<close> it sends has \<^verbatim>\<open>created\<close> false, which the handler ignores.
\<close>

definition Clinic_save_clinic_admin :: "clinic \<Rightarrow> store \<Rightarrow> store" where
  "Clinic_save_clinic_admin instance s =
     s\<lparr>clinics := map (\<lambda>x. if clinic_pk x = clinic_pk instance
                             then x\<lparr>clinic_admin := clinic_admin instance\<rparr> else x) (clinics s)\<rparr>"

definition create_clinic_admin_user :: "(nat \<Rightarrow> nat) \<Rightarrow> store \<Rightarrow> clinic \<Rightarrow> bool \<Rightarrow> store \<times> clinic" where
  "create_clinic_admin_user rnd s instance created =
     (if created \<and> truthy (clinic_email instance) \<and> truthy (contact_person_name instance) \<and>
         clinic_admin instance = None
      then
        (let s1 = Role_get_or_create ''Clinic Admin'' s;
             name_parts = split (strip (contact_person_name instance));
             first = (if name_parts \<noteq> [] then hd name_parts else ''Admin'');
             last = (if length name_parts > 1 then join '' '' (tl name_parts) else []);
             temp_password = models_generate_temp_password rnd 12
         in case create_user s1 (clinic_email instance) temp_password
                   (new_user\<lparr>first_name := first, last_name := last, role := Some ''Clinic Admin'',
                              is_staff := True, is_active := clinic_is_active instance,
                              password_reset_required := True\<rparr>) of
              Inl e \<Rightarrow> (s1\<lparr>log := log s1 @ [ErrorCreatingUser e]\<rparr>, instance)
            | Inr (s2, u) \<Rightarrow>
                (let s3 = Group_get_or_create ''Clinic Admin'' s2;
                     s4 = groups_add (uid u) ''Clinic Admin'' s3;
                     s5 = fold (grant_permission (uid u)) clinic_signal_permissions s4;
                     instance' = instance\<lparr>clinic_admin := Some (uid u)\<rparr>;
                     s6 = Clinic_save_clinic_admin instance' s5
                 in (send_welcome (clinic_email instance') temp_password s6, instance')))
      else (s, instance))"

text \<open>
  \<^verbatim>\<open>Clinic.save()\<close>. An object without primary key is inserted under a new key. An
  object with a primary key replaces the row that has this key, and is inserted under its
  key when no row has it. The handler runs with \<^verbatim>\<open>created\<close> true after an insertion
  and false after a replacement.
\<close>

definition Clinic_save :: "(nat \<Rightarrow> nat) \<Rightarrow> store \<Rightarrow> clinic \<Rightarrow> store \<times> clinic" where
  "Clinic_save rnd s obj =
     (case clinic_pk obj of
        None \<Rightarrow>
          (let obj' = obj\<lparr>clinic_pk := Some (new_clinic_pk s)\<rparr>
           in create_clinic_admin_user rnd
                (s\<lparr>clinics := clinics s @ [obj'], clinic_id_seq := new_clinic_pk s\<rparr>) obj' True)
      | Some i \<Rightarrow>
          (if list_ex (\<lambda>x. clinic_pk x = Some i) (clinics s) then
             create_clinic_admin_user rnd
               (s\<lparr>clinics := map (\<lambda>x. if clinic_pk x = Some i then obj else x) (clinics s)\<rparr>)
               obj False
           else
             create_clinic_admin_user rnd
               (s\<lparr>clinics := clinics s @ [obj], clinic_id_seq := max (clinic_id_seq s) i\<rparr>)
               obj True))"

subsection \<open>\<^verbatim>\<open>ClinicForm.clean\<close> and \<^verbatim>\<open>ClinicAdmin.save_model\<close> (clinic/admin.py)\<close>

text \<open>
  The form is bound to the clinic object that carries the submitted data;
  \<^verbatim>\<open>User.objects.filter(email=email).exists()\<close> compares the addresses as they are.
\<close>

definition ClinicForm_clean :: "store \<Rightarrow> clinic \<Rightarrow> py_error + clinic" where
  "ClinicForm_clean s instance =
     (if clinic_pk instance = None then
        (if \<not> truthy (clinic_email instance) then
           Inl (ValidationError ''Email is required to create clinic admin account.'')
         else if \<not> truthy (contact_person_name instance) then
           Inl (ValidationError ''Contact person name is required to create clinic admin account.'')
         else if list_ex (\<lambda>u. email u = clinic_email instance) (users s) then
           Inl (ValidationError (''Email '' @ clinic_email instance @ '' is already registered.''))
         else Inr instance)
      else Inr instance)"

definition clinic_admin_permissions :: "string list" where
  "clinic_admin_permissions =
     [''add_therapistprofile'', ''change_therapistprofile'', ''view_therapistprofile'',
      ''add_parentprofile'', ''change_parentprofile'', ''view_parentprofile'',
      ''add_child'', ''change_child'', ''view_child'',
      ''view_clinic'', ''change_clinic'']"

text \<open>
  \<^verbatim>\<open>save_model\<close>. The result is \<open>None\<close> when the password loop does not return. An
  exception is reported with \<^verbatim>\<open>messages.error\<close> and raised again: the admin view runs
  in a transaction, so an error result carries no store and the caller keeps the one it
  had. \<^verbatim>\<open>name_parts[0]\<close> raises \<^verbatim>\<open>IndexError\<close> on a name of whitespace only.
  \<^verbatim>\<open>super().save_model\<close> is \<^verbatim>\<open>obj.save()\<close>.
\<close>

definition ClinicAdmin_save_model ::
  "(nat \<Rightarrow> nat) \<Rightarrow> store \<Rightarrow> clinic \<Rightarrow> bool \<Rightarrow> (py_error + store \<times> clinic) option" where
  "ClinicAdmin_save_model rnd s obj change =
     (if \<not> change \<and> truthy (clinic_email obj) \<and> truthy (contact_person_name obj) then
        (let s1 = Role_get_or_create ''Clinic Admin'' s
         in case admin_generate_temp_password rnd 12 of
              None \<Rightarrow> None
            | Some temp_password \<Rightarrow>
                Some
                  (case split (strip (contact_person_name obj)) of
                     [] \<Rightarrow> Inl IndexError
                   | first # rest \<Rightarrow>
                       (let last = (if length (first # rest) > 1 then join '' '' rest else [])
                        in case create_user s1 (clinic_email obj) temp_password
                                  (new_user\<lparr>first_name := first, last_name := last,
                                             role := Some ''Clinic Admin'', is_staff := True,
                                             is_active := True, password_reset_required := True\<rparr>) of
                             Inl e \<Rightarrow> Inl e
                           | Inr (s2, u) \<Rightarrow>
                               (let s3 = Group_get_or_create ''Clinic Admin'' s2;
                                    s4 = groups_add (uid u) ''Clinic Admin'' s3;
                                    s5 = fold (grant_permission (uid u)) clinic_admin_permissions s4;
                                    (s6, obj') = Clinic_save rnd s5 (obj\<lparr>clinic_admin := Some (uid u)\<rparr>);
                                    s7 = send_welcome (clinic_email obj') temp_password s6
                                in Inr (s7\<lparr>log := log s7 @ [MessageSuccess (clinic_email obj')]\<rparr>, obj')))))
      else Some (Inr (Clinic_save rnd s obj)))"

text \<open>
  Adding a clinic in the admin: Django validates the form, and calls \<^verbatim>\<open>save_model\<close>
  with \<^verbatim>\<open>change\<close> false only when the form is valid.
\<close>

definition ClinicAdmin_add :: "(nat \<Rightarrow> nat) \<Rightarrow> store \<Rightarrow> clinic \<Rightarrow> (py_error + store \<times> clinic) option" where
  "ClinicAdmin_add rnd s obj =
     (case ClinicForm_clean s obj of
        Inl e \<Rightarrow> Some (Inl e)
      | Inr cleaned \<Rightarrow> ClinicAdmin_save_model rnd s cleaned False)"

subsection \<open>The \<^verbatim>\<open>post_save\<close> handlers of therapy/models.py\<close>

definition therapist_permissions :: "string list" where
  "therapist_permissions =
     [''add_assignment'', ''change_assignment'', ''view_assignment'',
      ''add_goal'', ''change_goal'', ''view_goal'',
      ''add_task'', ''change_task'', ''view_task'',
      ''view_child'', ''change_child'']"

definition TherapistProfile_save_user :: "therapist_profile \<Rightarrow> store \<Rightarrow> store" where
  "TherapistProfile_save_user instance s =
     s\<lparr>therapist_profiles := map (\<lambda>x. if therapist_id x = therapist_id instance
                                        then x\<lparr>therapist_user := therapist_user instance\<rparr> else x)
                                  (therapist_profiles s)\<rparr>"

definition create_therapist_user ::
  "(nat \<Rightarrow> nat) \<Rightarrow> store \<Rightarrow> therapist_profile \<Rightarrow> bool \<Rightarrow> store \<times> therapist_profile" where
  "create_therapist_user rnd s instance created =
     (if created \<and> truthy (therapist_email instance) \<and> therapist_user instance = None then
        (let s1 = Role_get_or_create ''Therapist'' s
         in case User_objects_create s1
                   (new_user\<lparr>email := therapist_email instance,
                              first_name := therapist_first_name instance,
                              last_name := therapist_last_name instance,
                              role := Some ''Therapist'', is_staff := True,
                              is_active := therapist_is_active instance,
                              password_reset_required := True\<rparr>) of
              Inl e \<Rightarrow> (s1\<lparr>log := log s1 @ [ErrorCreatingUser e]\<rparr>, instance)
            | Inr (s2, u) \<Rightarrow>
                (let (u', temp_password) = User_generate_temp_password rnd u;
                     s3 = User_save u' s2;
                     s4 = Group_get_or_create ''therapist'' s3;
                     s5 = groups_add (uid u') ''therapist'' s4;
                     s6 = fold (grant_permission (uid u')) therapist_permissions s5;
                     instance' = instance\<lparr>therapist_user := Some (uid u')\<rparr>;
                     s7 = TherapistProfile_save_user instance' s6
                 in (send_welcome (therapist_email instance') temp_password s7, instance')))
      else (s, instance))"

definition ParentProfile_save_user :: "parent_profile \<Rightarrow> store \<Rightarrow> store" where
  "ParentProfile_save_user instance s =
     s\<lparr>parent_profiles := map (\<lambda>x. if parent_id x = parent_id instance
                                     then x\<lparr>parent_user := parent_user instance\<rparr> else x)
                               (parent_profiles s)\<rparr>"

text \<open>\<^verbatim>\<open>User.assign_to_group\<close>: the group is found or created, the user added, and saved.\<close>

definition assign_to_group :: "user \<Rightarrow> string \<Rightarrow> store \<Rightarrow> store" where
  "assign_to_group self group_name s =
     User_save self (groups_add (uid self) group_name (Group_get_or_create group_name s))"

definition create_parent_user ::
  "(nat \<Rightarrow> nat) \<Rightarrow> store \<Rightarrow> parent_profile \<Rightarrow> bool \<Rightarrow> store \<times> parent_profile" where
  "create_parent_user rnd s instance created =
     (if created \<and> truthy (parent_email instance) \<and> parent_user instance = None then
        (let s1 = Role_get_or_create ''Parent'' s
         in case User_objects_create s1
                   (new_user\<lparr>email := parent_email instance,
                              first_name := parent_first_name instance,
                              last_name := parent_last_name instance,
                              role := Some ''Parent'', is_staff := False,
                              is_active := parent_is_active instance,
                              password_reset_required := True\<rparr>) of
              Inl e \<Rightarrow> (s1\<lparr>log := log s1 @ [ErrorCreatingUser e]\<rparr>, instance)
            | Inr (s2, u) \<Rightarrow>
                (let (u', temp_password) = User_generate_temp_password rnd u;
                     s3 = User_save u' s2;
                     s4 = assign_to_group u' ''parent'' s3;
                     instance' = instance\<lparr>parent_user := Some (uid u')\<rparr>;
                     s5 = ParentProfile_save_user instance' s4
                 in (send_welcome (parent_email instance') temp_password s5, instance')))
      else (s, instance))"

section \<open>A concrete store\<close>

text \<open>
  One clinic with its administrator, one therapist and one parent with their user
  accounts, one child with a goal, a task and an assignment; a superuser without a role
  and a therapist account that no therapist profile is linked to.
\<close>

definition mk_user :: "nat \<Rightarrow> string \<Rightarrow> string option \<Rightarrow> bool \<Rightarrow> user" where
  "mk_user i e r su =
     \<lparr>uid = i, email = e, password = ''secret'', first_name = ''First'', last_name = ''Last'',
      role = r, is_staff = True, is_active = True, is_superuser = su, is_authenticated = True,
      password_reset_required = False, user_groups = [], user_permissions = []\<rparr>"

definition root_user :: user where
  "root_user = mk_user 1 ''root@x.com'' None True"

definition clinic_admin_user :: user where
  "clinic_admin_user = mk_user 2 ''admin@x.com'' (Some ''Clinic Admin'') False"

definition therapist_user1 :: user where
  "therapist_user1 = mk_user 3 ''therapist@x.com'' (Some ''Therapist'') False"

definition parent_user1 :: user where
  "parent_user1 = mk_user 4 ''parent@x.com'' (Some ''Parent'') False"

definition unlinked_therapist :: user where
  "unlinked_therapist = mk_user 5 ''new@x.com'' (Some ''Therapist'') False"

definition store1 :: store where
  "store1 =
     \<lparr>users = [root_user, clinic_admin_user, therapist_user1, parent_user1, unlinked_therapist],
      roles = [''Clinic Admin'', ''Therapist'', ''Parent''],
      auth_groups = [''neuvii_admin'', ''clinic_admin'', ''therapist'', ''parent''],
      auth_permissions = [],
      clinics = [\<lparr>clinic_pk = Some 1, clinic_name = ''North'', contact_person_name = ''Ann Lee'',
                  clinic_email = ''admin@x.com'', clinic_admin = Some 2, clinic_is_active = True\<rparr>],
      therapist_profiles = [\<lparr>therapist_id = 1, therapist_first_name = ''Tom'', therapist_last_name = ''Ray'',
                  therapist_email = ''therapist@x.com'', therapist_is_active = True,
                  therapist_clinic = Some 1, therapist_user = Some 3\<rparr>],
      parent_profiles = [\<lparr>parent_id = 1, parent_first_name = ''Pat'', parent_last_name = ''Roe'',
                  parent_email = ''parent@x.com'', parent_is_active = True, parent_user = Some 4\<rparr>],
      children = [\<lparr>child_id = 1, child_name = ''Kim'', child_clinic = 1, child_parent = 1,
                  assigned_therapist = Some 1\<rparr>],
      goals = [\<lparr>goal_id = 1, goal_child = 1, goal_title = ''Speech''\<rparr>],
      tasks = [\<lparr>task_id = 1, task_goal = 1, task_title = ''Vowels''\<rparr>],
      assignments = [\<lparr>assignment_id = 1, assignment_child = 1, assignment_therapist = 1,
                  assignment_task = 1, completed = False\<rparr>],
      user_id_seq = 5, clinic_id_seq = 1, outbox = [], log = [], mail_up = True\<rparr>"

text \<open>
  A store with no row but two permissions, and clinics that have not been saved: an
  inactive one of Jane Doe at \<^verbatim>\<open>a@x.com\<close>, and one at the address of an existing user
  of \<open>store1\<close>.
\<close>

definition empty_store :: store where
  "empty_store =
     \<lparr>users = [], roles = [], auth_groups = [], auth_permissions = [''view_clinic'', ''change_clinic''],
      clinics = [], therapist_profiles = [], parent_profiles = [], children = [], goals = [],
      tasks = [], assignments = [], user_id_seq = 0, clinic_id_seq = 0,
      outbox = [], log = [], mail_up = True\<rparr>"

definition jane_clinic :: clinic where
  "jane_clinic =
     \<lparr>clinic_pk = None, clinic_name = ''East'', contact_person_name = ''Jane Doe'',
      clinic_email = ''a@x.com'', clinic_admin = None, clinic_is_active = False\<rparr>"

definition second_clinic :: clinic where
  "second_clinic =
     \<lparr>clinic_pk = None, clinic_name = ''South'', contact_person_name = ''Ann Lee'',
      clinic_email = ''admin@x.com'', clinic_admin = None, clinic_is_active = True\<rparr>"


text \<open>A random source that draws a different character at every call.\<close>

definition rnd2 :: "nat \<Rightarrow> nat" where
  "rnd2 i = 7 * i + 3"

section \<open>Access control: what the admin classes decide\<close>

lemmas queryset_defs = ClinicAdmin_get_queryset_def TherapistProfileAdmin_get_queryset_def
  ParentProfileAdmin_get_queryset_def ChildAdmin_get_queryset_def AssignmentAdmin_get_queryset_def
  GoalAdmin_get_queryset_def TaskAdmin_get_queryset_def

lemmas task_permission_defs = TaskAdmin_has_module_permission_def TaskAdmin_has_view_permission_def
  TaskAdmin_has_add_permission_def TaskAdmin_has_change_permission_def
  TaskAdmin_has_delete_permission_def

text \<open>
  The mixin answers a superuser before it looks at the role: the whole queryset,
  whatever the role and the model.
\<close>

lemma TherapistDataMixin_superuser:
  "is_authenticated u \<Longrightarrow> is_superuser u \<Longrightarrow>
   TherapistDataMixin_get_queryset s u model qs = Inr qs"
  by (simp add: TherapistDataMixin_get_queryset_def)

text \<open>
  Claim C1, at a superuser without a role. Every entity admin class answers the module
  permission of a superuser with true, and the data mixin returns the whole queryset, but
  the \<^verbatim>\<open>get_queryset\<close> of the admin classes returns \<^verbatim>\<open>qs.none()\<close> as soon as the
  user has no role, and the permission checks that go on to test the role fall through
  to false: in \<open>store1\<close> the superuser \<open>root_user\<close> is shown no clinic, no therapist
  and no task, and may neither view the clinic list or delete a clinic, nor add a
  therapist or an assignment, nor delete a task.
\<close>

theorem superuser_without_role_sees_nothing:
  "is_authenticated root_user \<and> is_superuser root_user \<and> is_active root_user \<and>
   role root_user = None \<and>
   clinics store1 \<noteq> [] \<and> ClinicAdmin_get_queryset store1 root_user = Inr [] \<and>
   therapist_profiles store1 \<noteq> [] \<and> TherapistProfileAdmin_get_queryset store1 root_user = Inr [] \<and>
   tasks store1 \<noteq> [] \<and> TaskAdmin_get_queryset store1 root_user = Inr [] \<and>
   ClinicAdmin_has_view_permission store1 root_user None = Inr False \<and>
   \<not> ClinicAdmin_has_delete_permission root_user \<and>
   \<not> TherapistProfileAdmin_has_add_permission root_user \<and>
   \<not> AssignmentAdmin_has_add_permission root_user \<and>
   \<not> TaskAdmin_has_delete_permission root_user"
  by (simp add: root_user_def mk_user_def store1_def queryset_defs
      ClinicAdmin_has_view_permission_def ClinicAdmin_has_module_permission_def
      ClinicAdmin_has_delete_permission_def
      TherapistProfileAdmin_has_add_permission_def TherapistProfileAdmin_has_module_permission_def
      AssignmentAdmin_has_add_permission_def AssignmentAdmin_has_module_permission_def
      TaskAdmin_has_delete_permission_def TaskAdmin_has_module_permission_def)

text \<open>
  Claim C7: a user whose role is Parent gets the empty queryset of tasks from any store,
  and, unless the superuser flag overrides the role, is refused the task module and with
  it the view, add, change and delete permissions on tasks.
\<close>

theorem parent_never_sees_tasks:
  assumes "role u = Some ''Parent''"
  shows "TaskAdmin_get_queryset s u = Inr [] \<and>
         (\<not> is_superuser u \<longrightarrow>
            \<not> TaskAdmin_has_module_permission u \<and> \<not> TaskAdmin_has_view_permission u \<and>
            \<not> TaskAdmin_has_add_permission u \<and> \<not> TaskAdmin_has_change_permission u \<and>
            \<not> TaskAdmin_has_delete_permission u)"
  using assms by (simp add: TaskAdmin_get_queryset_def task_permission_defs)

theorem parent_never_sees_tasks_witness:
  "role parent_user1 = Some ''Parent'' \<and> \<not> is_superuser parent_user1 \<and> tasks store1 \<noteq> [] \<and>
   TaskAdmin_get_queryset store1 parent_user1 = Inr [] \<and>
   \<not> TaskAdmin_has_module_permission parent_user1"
  using parent_never_sees_tasks [of parent_user1 store1]
  by (simp add: parent_user1_def mk_user_def store1_def)




section \<open>Deleting a parent profile\<close>

lemmas delete_defs = ParentProfile_delete_def Child_delete_def Goal_delete_def Task_delete_def

text \<open>
  The cascade of \<^verbatim>\<open>ParentProfile.user\<close> runs from the user to the profile: deleting
  the user account of the parent of \<open>store1\<close> deletes the profile and the child.
\<close>

lemma User_delete_deletes_profiles:
  "list_all (\<lambda>p. parent_user p \<noteq> Some i) (parent_profiles (User_delete [i] s)) \<and>
   list_all (\<lambda>t. therapist_user t \<noteq> Some i) (therapist_profiles (User_delete [i] s)) \<and>
   list_all (\<lambda>u. uid u \<noteq> i) (users (User_delete [i] s))"
  by (auto simp add: User_delete_def TherapistProfile_delete_def delete_defs Let_def list_all_iff)

lemma User_delete_cascades_to_profile:
  "parent_profiles (User_delete [uid parent_user1] store1) = [] \<and>
   children (User_delete [uid parent_user1] store1) = [] \<and>
   map uid (users (User_delete [uid parent_user1] store1)) = [1, 2, 3, 5]"
  by code_simp




section \<open>The generated passwords\<close>

lemma length_draw: "length (draw rnd k alphabet n) = n"
  by (simp add: draw_def)

lemma set_draw: "alphabet \<noteq> [] \<Longrightarrow> set (draw rnd k alphabet n) \<subseteq> set alphabet"
  by (auto simp add: draw_def secrets_choice_def)

lemma alphabet_not_empty: "ascii_letters @ digits @ punctuation \<noteq> []"
  by (simp add: digits_def)

text \<open>A password the loop returns was accepted by its test.\<close>

lemma generate_loop_sound:
  assumes "generate_loop rnd n k = Some p"
  shows "length p = n \<and> acceptable p \<and> set p \<subseteq> set (ascii_letters @ digits @ punctuation)"
proof (rule generate_loop.raw_induct
    [where P = "\<lambda>rnd n k p. length p = n \<and> acceptable p \<and>
                  set p \<subseteq> set (ascii_letters @ digits @ punctuation)", OF _ assms])
  fix f rnd n k p
  assume IH: "\<And>rnd n k p. f rnd n k = Some p \<Longrightarrow>
      length p = n \<and> acceptable p \<and> set p \<subseteq> set (ascii_letters @ digits @ punctuation)"
    and step: "(let password = draw rnd k (ascii_letters @ digits @ punctuation) n
      in if acceptable password then Some password
         else f rnd n (k + n)) = Some p"
  show "length p = n \<and> acceptable p \<and> set p \<subseteq> set (ascii_letters @ digits @ punctuation)"
  proof (cases "acceptable (draw rnd k (ascii_letters @ digits @ punctuation) n)")
    case True
    with step have "p = draw rnd k (ascii_letters @ digits @ punctuation) n"
      by (simp add: Let_def)
    with True show ?thesis
      using set_draw [OF alphabet_not_empty] by (simp add: length_draw)
  next
    case False
    with step have "f rnd n (k + n) = Some p" by (simp add: Let_def)
    then show ?thesis by (rule IH)
  qed
qed

text \<open>The loop returns as soon as one of the drafts it draws is acceptable.\<close>

lemma generate_loop_returns:
  "acceptable (draw rnd (k + j * n) (ascii_letters @ digits @ punctuation) n) \<Longrightarrow>
   \<exists>p. generate_loop rnd n k = Some p"
proof (induction j arbitrary: k)
  case 0
  then show ?case by (subst generate_loop.simps) (simp add: Let_def)
next
  case (Suc j)
  have "acceptable (draw rnd ((k + n) + j * n) (ascii_letters @ digits @ punctuation) n)"
    using Suc.prems by (simp add: algebra_simps)
  then obtain p where "generate_loop rnd n (k + n) = Some p"
    using Suc.IH by blast
  then show ?case by (subst generate_loop.simps) (simp add: Let_def)
qed

text \<open>
  It need not return: on the constant source every draft is twelve times the letter a.
\<close>

lemma draw_rnd0: "draw rnd0 k (ascii_letters @ digits @ punctuation) 12 = replicate 12 (CHR ''a'')"
  by (simp add: draw_def rnd0_def secrets_choice_def ascii_letters_def ascii_lowercase_def
      map_replicate_const)

lemma generate_loop_rnd0: "admin_generate_temp_password rnd0 12 = None"
proof (rule ccontr)
  assume "admin_generate_temp_password rnd0 12 \<noteq> None"
  then obtain p where p: "generate_loop rnd0 12 0 = Some p"
    by (auto simp add: admin_generate_temp_password_def)
  have "rnd = rnd0 \<and> n = 12 \<longrightarrow> False" if "generate_loop rnd n k = Some q" for rnd n k q
  proof (rule generate_loop.raw_induct
      [where P = "\<lambda>rnd n k p. rnd = rnd0 \<and> n = 12 \<longrightarrow> False", OF _ that])
    fix f rnd n k p
    assume IH: "\<And>rnd n k p. f rnd n k = Some p \<Longrightarrow> rnd = rnd0 \<and> n = 12 \<longrightarrow> False"
      and step: "(let password = draw rnd k (ascii_letters @ digits @ punctuation) n
        in if acceptable password then Some password
           else f rnd n (k + n)) = Some p"
    show "rnd = rnd0 \<and> n = 12 \<longrightarrow> False"
    proof
      assume a: "rnd = rnd0 \<and> n = 12"
      have "\<not> acceptable (replicate 12 (CHR ''a''))"
        by (simp add: acceptable_def isupper_def ascii_uppercase_def list_ex_iff)
      with step a have "f rnd0 12 (k + 12) = Some p"
        by (simp add: Let_def draw_rnd0)
      with IH show False by blast
    qed
  qed
  with p show False by blast
qed

text \<open>The length, the alphabet and the character classes of the passwords.\<close>

lemma temp_password_shape:
  "length (models_generate_temp_password rnd 12) = 12 \<and>
   set (models_generate_temp_password rnd 12) \<subseteq> set (ascii_letters @ digits @ punctuation) \<and>
   length (snd (User_generate_temp_password rnd u)) = 12 \<and>
   set (snd (User_generate_temp_password rnd u))
     \<subseteq> set (ascii_letters @ digits @ map char_of [33, 64, 35, 36, 37, 94, 38, 42 :: nat]) \<and>
   (\<forall>p. admin_generate_temp_password rnd 12 = Some p \<longrightarrow>
        length p = 12 \<and> set p \<subseteq> set (ascii_letters @ digits @ punctuation) \<and>
        list_ex islower p \<and> list_ex isupper p \<and> list_ex isdigit p \<and>
        list_ex (\<lambda>c. c \<in> set punctuation) p) \<and>
   ((\<exists>j. acceptable (draw rnd (j * 12) (ascii_letters @ digits @ punctuation) 12)) \<longrightarrow>
        (\<exists>p. admin_generate_temp_password rnd 12 = Some p))"
proof -
  have 1: "length (models_generate_temp_password rnd 12) = 12"
    by (simp add: models_generate_temp_password_def length_draw)
  have 2: "set (models_generate_temp_password rnd 12) \<subseteq> set (ascii_letters @ digits @ punctuation)"
    unfolding models_generate_temp_password_def by (rule set_draw [OF alphabet_not_empty])
  have 3: "length (snd (User_generate_temp_password rnd u)) = 12"
    by (simp add: User_generate_temp_password_def Let_def length_draw)
  have "ascii_letters @ digits @ map char_of [33, 64, 35, 36, 37, 94, 38, 42 :: nat] \<noteq> []"
    by (simp add: digits_def)
  then have 4: "set (snd (User_generate_temp_password rnd u))
     \<subseteq> set (ascii_letters @ digits @ map char_of [33, 64, 35, 36, 37, 94, 38, 42 :: nat])"
    unfolding User_generate_temp_password_def Let_def snd_conv by (rule set_draw)
  have 5: "length p = 12 \<and> set p \<subseteq> set (ascii_letters @ digits @ punctuation) \<and>
        list_ex islower p \<and> list_ex isupper p \<and> list_ex isdigit p \<and>
        list_ex (\<lambda>c. c \<in> set punctuation) p"
    if "admin_generate_temp_password rnd 12 = Some p" for p
    using generate_loop_sound [of rnd 12 0 p] that
    by (simp add: admin_generate_temp_password_def acceptable_def)
  have 6: "\<exists>p. admin_generate_temp_password rnd 12 = Some p"
    if "\<exists>j. acceptable (draw rnd (j * 12) (ascii_letters @ digits @ punctuation) 12)"
    using that generate_loop_returns [of rnd 0 _ 12]
    by (auto simp add: admin_generate_temp_password_def)
  from 1 2 3 4 5 6 show ?thesis by blast
qed

lemma nth_draw: "i < n \<Longrightarrow> draw rnd k alphabet n ! i = secrets_choice (rnd (k + i)) alphabet"
  by (simp add: draw_def)

text \<open>The password the loop returns is the first acceptable one of the successive drafts.\<close>

lemma generate_loop_first:
  assumes "generate_loop rnd n k = Some p"
  shows "\<exists>j. p = draw rnd (k + j * n) admin_alphabet n \<and>
             (\<forall>i<j. \<not> acceptable (draw rnd (k + i * n) admin_alphabet n))"
proof (rule generate_loop.raw_induct
    [where P = "\<lambda>rnd n k p. \<exists>j. p = draw rnd (k + j * n) admin_alphabet n \<and>
                  (\<forall>i<j. \<not> acceptable (draw rnd (k + i * n) admin_alphabet n))", OF _ assms])
  fix f rnd n k p
  assume IH: "\<And>rnd n k p. f rnd n k = Some p \<Longrightarrow>
      \<exists>j. p = draw rnd (k + j * n) admin_alphabet n \<and>
          (\<forall>i<j. \<not> acceptable (draw rnd (k + i * n) admin_alphabet n))"
    and step: "(let password = draw rnd k admin_alphabet n
      in if acceptable password then Some password
         else f rnd n (k + n)) = Some p"
  show "\<exists>j. p = draw rnd (k + j * n) admin_alphabet n \<and>
          (\<forall>i<j. \<not> acceptable (draw rnd (k + i * n) admin_alphabet n))"
  proof (cases "acceptable (draw rnd k admin_alphabet n)")
    case True
    with step have "p = draw rnd (k + 0 * n) admin_alphabet n" by (simp add: Let_def)
    then show ?thesis by blast
  next
    case False
    with step have "f rnd n (k + n) = Some p" by (simp add: Let_def)
    from IH [OF this] obtain j where j: "p = draw rnd (k + n + j * n) admin_alphabet n"
      and before: "\<forall>i<j. \<not> acceptable (draw rnd (k + n + i * n) admin_alphabet n)"
      by blast
    have "p = draw rnd (k + Suc j * n) admin_alphabet n"
      using j by (simp add: algebra_simps)
    moreover have "\<not> acceptable (draw rnd (k + i * n) admin_alphabet n)" if "i < Suc j" for i
    proof (cases i)
      case 0
      with False show ?thesis by simp
    next
      case (Suc m)
      with that have "m < j" by simp
      with before have "\<not> acceptable (draw rnd (k + n + m * n) admin_alphabet n)" by blast
      with Suc show ?thesis by (simp add: algebra_simps)
    qed
    ultimately show ?thesis by blast
  qed
qed

text \<open>
  A call of \<^verbatim>\<open>secrets.choice\<close> maps the numbers below the length of an alphabet one
  to one onto its characters: no character of the two alphabets occurs twice.
\<close>

lemma distinct_admin_alphabet: "distinct admin_alphabet \<and> length admin_alphabet = 94"
  by code_simp

lemma distinct_user_alphabet: "distinct user_alphabet \<and> length user_alphabet = 70"
  by code_simp

lemma secrets_choice_bij:
  assumes "distinct alphabet"
  shows "bij_betw (\<lambda>r. secrets_choice r alphabet) {..<length alphabet} (set alphabet)"
proof -
  have "bij_betw ((!) alphabet) {..<length alphabet} (set alphabet)"
    using assms by (rule bij_betw_nth) simp_all
  moreover have "\<forall>r \<in> {..<length alphabet}. secrets_choice r alphabet = alphabet ! r"
    by (simp add: secrets_choice_def)
  then have "bij_betw (\<lambda>r. secrets_choice r alphabet) {..<length alphabet} (set alphabet)
               = bij_betw ((!) alphabet) {..<length alphabet} (set alphabet)"
    by (intro bij_betw_cong) simp
  ultimately show ?thesis by simp
qed

text \<open>Every string over the alphabet is drawn from some random source.\<close>

lemma every_string_is_drawn:
  assumes "set t \<subseteq> set alphabet"
  shows "\<exists>rnd. draw rnd 0 alphabet (length t) = t"
proof -
  have ex: "\<forall>i. \<exists>r. i < length t \<longrightarrow> r < length alphabet \<and> alphabet ! r = t ! i"
  proof
    fix i
    show "\<exists>r. i < length t \<longrightarrow> r < length alphabet \<and> alphabet ! r = t ! i"
    proof (cases "i < length t")
      case True
      then have "t ! i \<in> set alphabet" using assms by auto
      then show ?thesis by (auto simp add: in_set_conv_nth)
    next
      case False
      then show ?thesis by simp
    qed
  qed
  from choice [OF ex]
  obtain rnd where rnd: "\<forall>i. i < length t \<longrightarrow> rnd i < length alphabet \<and> alphabet ! rnd i = t ! i"
    by blast
  have "draw rnd 0 alphabet (length t) = t"
    by (rule nth_equalityI) (simp_all add: draw_def secrets_choice_def rnd)
  then show ?thesis by blast
qed

text \<open>
  Claim C6. Each generator returns twelve characters, and each character is one call of
  \<^verbatim>\<open>secrets.choice\<close> on the alphabet, at the next number of the random source: the
  generator of clinic/models.py and \<^verbatim>\<open>User.generate_temp_password\<close> (which also sets
  the password of the user) use the first twelve numbers. The generator of clinic/admin.py
  returns the first draft of twelve numbers that has a lowercase letter, an uppercase
  letter, a digit and a punctuation character, and it returns whenever there is such a
  draft. A call of \<^verbatim>\<open>secrets.choice\<close> maps the numbers below the length of the alphabet
  one to one onto its characters, so that every string of twelve characters of the
  alphabet is the password for some random source, and every acceptable one for the
  generator of the admin.
\<close>

theorem temp_passwords_are_drawn:
  "length (models_generate_temp_password rnd 12) = 12 \<and>
   set (models_generate_temp_password rnd 12) \<subseteq> set admin_alphabet \<and>
   (\<forall>i<12. models_generate_temp_password rnd 12 ! i = secrets_choice (rnd i) admin_alphabet) \<and>
   length (snd (User_generate_temp_password rnd u)) = 12 \<and>
   set (snd (User_generate_temp_password rnd u)) \<subseteq> set user_alphabet \<and>
   (\<forall>i<12. snd (User_generate_temp_password rnd u) ! i = secrets_choice (rnd i) user_alphabet) \<and>
   password (fst (User_generate_temp_password rnd u)) = snd (User_generate_temp_password rnd u) \<and>
   (\<forall>p. admin_generate_temp_password rnd 12 = Some p \<longrightarrow>
        length p = 12 \<and> set p \<subseteq> set admin_alphabet \<and>
        list_ex islower p \<and> list_ex isupper p \<and> list_ex isdigit p \<and>
        list_ex (\<lambda>c. c \<in> set punctuation) p \<and>
        (\<exists>j. (\<forall>i<12. p ! i = secrets_choice (rnd (12 * j + i)) admin_alphabet) \<and>
             (\<forall>m<j. \<not> acceptable (map (\<lambda>i. secrets_choice (rnd (12 * m + i)) admin_alphabet)
                                   [0..<12])))) \<and>
   ((\<exists>j. acceptable (map (\<lambda>i. secrets_choice (rnd (12 * j + i)) admin_alphabet) [0..<12])) \<longrightarrow>
        (\<exists>p. admin_generate_temp_password rnd 12 = Some p)) \<and>
   bij_betw (\<lambda>r. secrets_choice r admin_alphabet) {..<94} (set admin_alphabet) \<and>
   bij_betw (\<lambda>r. secrets_choice r user_alphabet) {..<70} (set user_alphabet) \<and>
   (\<forall>t. length t = 12 \<and> set t \<subseteq> set admin_alphabet \<longrightarrow>
        (\<exists>src. models_generate_temp_password src 12 = t) \<and>
        (acceptable t \<longrightarrow> (\<exists>src. admin_generate_temp_password src 12 = Some t))) \<and>
   (\<forall>t. length t = 12 \<and> set t \<subseteq> set user_alphabet \<longrightarrow>
        (\<exists>src. snd (User_generate_temp_password src u) = t))"
proof -
  have draft: "draw src (12 * j) admin_alphabet 12
                 = map (\<lambda>i. secrets_choice (src (12 * j + i)) admin_alphabet) [0..<12]" for src j
    by (simp add: draw_def)
  have 1: "\<forall>i<12. models_generate_temp_password rnd 12 ! i = secrets_choice (rnd i) admin_alphabet"
    by (simp add: models_generate_temp_password_def nth_draw)
  have 2: "\<forall>i<12. snd (User_generate_temp_password rnd u) ! i = secrets_choice (rnd i) user_alphabet"
    by (simp add: User_generate_temp_password_def Let_def nth_draw)
  have 3: "password (fst (User_generate_temp_password rnd u)) = snd (User_generate_temp_password rnd u)"
    by (simp add: User_generate_temp_password_def Let_def)
  have 4: "\<exists>j. (\<forall>i<12. p ! i = secrets_choice (rnd (12 * j + i)) admin_alphabet) \<and>
             (\<forall>m<j. \<not> acceptable (map (\<lambda>i. secrets_choice (rnd (12 * m + i)) admin_alphabet)
                                   [0..<12]))"
    if "admin_generate_temp_password rnd 12 = Some p" for p
  proof -
    from that have "generate_loop rnd 12 0 = Some p"
      by (simp add: admin_generate_temp_password_def)
    from generate_loop_first [OF this]
    obtain j where p: "p = draw rnd (12 * j) admin_alphabet 12"
      and before: "\<forall>m<j. \<not> acceptable (draw rnd (12 * m) admin_alphabet 12)"
      by (auto simp add: mult.commute)
    from p have "\<forall>i<12. p ! i = secrets_choice (rnd (12 * j + i)) admin_alphabet"
      by (simp add: nth_draw)
    with before show ?thesis unfolding draft by blast
  qed
  have 5: "\<exists>p. admin_generate_temp_password rnd 12 = Some p"
    if "\<exists>j. acceptable (map (\<lambda>i. secrets_choice (rnd (12 * j + i)) admin_alphabet) [0..<12])"
  proof -
    from that obtain j where "acceptable (draw rnd (0 + j * 12) admin_alphabet 12)"
      unfolding draft [symmetric] by (auto simp add: mult.commute)
    from generate_loop_returns [OF this] show ?thesis
      by (simp add: admin_generate_temp_password_def)
  qed
  have 6: "bij_betw (\<lambda>r. secrets_choice r admin_alphabet) {..<94} (set admin_alphabet)"
    using secrets_choice_bij [of admin_alphabet] distinct_admin_alphabet by simp
  have 7: "bij_betw (\<lambda>r. secrets_choice r user_alphabet) {..<70} (set user_alphabet)"
    using secrets_choice_bij [of user_alphabet] distinct_user_alphabet by simp
  have 8: "(\<exists>src. models_generate_temp_password src 12 = t) \<and>
        (acceptable t \<longrightarrow> (\<exists>src. admin_generate_temp_password src 12 = Some t))"
    if "length t = 12 \<and> set t \<subseteq> set admin_alphabet" for t
  proof -
    from every_string_is_drawn [of t admin_alphabet] that
    obtain src where src: "draw src 0 admin_alphabet 12 = t" by auto
    then have "models_generate_temp_password src 12 = t"
      by (simp add: models_generate_temp_password_def)
    moreover have "admin_generate_temp_password src 12 = Some t" if "acceptable t"
      unfolding admin_generate_temp_password_def
      by (subst generate_loop.simps) (simp add: src that)
    ultimately show ?thesis by blast
  qed
  have 9: "\<exists>src. snd (User_generate_temp_password src u) = t"
    if "length t = 12 \<and> set t \<subseteq> set user_alphabet" for t
  proof -
    from every_string_is_drawn [of t user_alphabet] that
    obtain src where "draw src 0 user_alphabet 12 = t" by auto
    then have "snd (User_generate_temp_password src u) = t"
      by (simp add: User_generate_temp_password_def Let_def)
    then show ?thesis by blast
  qed
  from temp_password_shape [of rnd u] 1 2 3 4 5 6 7 8 9 show ?thesis by blast
qed

theorem temp_passwords_are_drawn_witness:
  "acceptable (map (\<lambda>i. secrets_choice (rnd1 (12 * 1 + i)) admin_alphabet) [0..<12]) \<and>
   admin_generate_temp_password rnd1 12 = Some ''aA0!aA0!aA0!'' \<and>
   admin_generate_temp_password rnd2 12 = Some ''dkryFMT07%,='' \<and>
   models_generate_temp_password rnd1 12 = ''aaaaaaaaaaaa'' \<and>
   models_generate_temp_password rnd2 12 = ''dkryFMT07%,='' \<and>
   snd (User_generate_temp_password rnd2 root_user) = ''dkryFMT07%dk'' \<and>
   length ''dkryFMT07%,='' = 12 \<and> set ''dkryFMT07%,='' \<subseteq> set admin_alphabet \<and>
   (\<exists>src. models_generate_temp_password src 12 = ''dkryFMT07%,='')"
proof -
  have a: "acceptable (map (\<lambda>i. secrets_choice (rnd1 (12 * 1 + i)) admin_alphabet) [0..<12])"
    by code_simp
  have b: "admin_generate_temp_password rnd1 12 = Some ''aA0!aA0!aA0!''"
    "admin_generate_temp_password rnd2 12 = Some ''dkryFMT07%,=''"
    "models_generate_temp_password rnd1 12 = ''aaaaaaaaaaaa''"
    "models_generate_temp_password rnd2 12 = ''dkryFMT07%,=''"
    "snd (User_generate_temp_password rnd2 root_user) = ''dkryFMT07%dk''"
    by code_simp+
  have c: "length ''dkryFMT07%,='' = 12" "set ''dkryFMT07%,='' \<subseteq> set admin_alphabet"
    by code_simp+
  from a b c temp_passwords_are_drawn [of rnd1 root_user] show ?thesis by blast
qed

section \<open>Provisioning: what the handlers do to the store\<close>

subsection \<open>The steps leave the other tables alone\<close>

lemma fold_max_ge_start: "(m :: nat) \<le> fold max ids m"
proof (induction ids arbitrary: m)
  case Nil
  show ?case by simp
next
  case (Cons a ids)
  have "m \<le> max a m" by simp
  also have "max a m \<le> fold max ids (max a m)" by (rule Cons.IH)
  finally show ?case by simp
qed

lemma fold_max_ge_member: "i \<in> set ids \<Longrightarrow> (i :: nat) \<le> fold max ids m"
proof (induction ids arbitrary: m)
  case Nil
  then show ?case by simp
next
  case (Cons a ids)
  show ?case
  proof (cases "i = a")
    case True
    have "a \<le> max a m" by simp
    also have "max a m \<le> fold max ids (max a m)" by (rule fold_max_ge_start)
    finally show ?thesis using True by simp
  next
    case False
    with Cons.prems have "i \<in> set ids" by simp
    then show ?thesis using Cons.IH by simp
  qed
qed

lemma new_pk_fresh: "new_pk seq ids \<notin> set ids"
proof
  assume "new_pk seq ids \<in> set ids"
  then have "new_pk seq ids \<le> fold max ids 0" by (rule fold_max_ge_member)
  then show False by (simp add: new_pk_def)
qed

lemma new_pk_after_seq: "seq < new_pk seq ids"
  by (simp add: new_pk_def less_Suc_eq_le)

lemma user_keys_simps:
  "map uid (users s) = map fst (user_keys s)"
  "map email (users s) = map snd (user_keys s)"
  "length (users s) = length (user_keys s)"
  by (simp_all add: user_keys_def comp_def)

lemma Group_get_or_create_frame [simp]:
  "users (Group_get_or_create n s) = users s"
  "user_keys (Group_get_or_create n s) = user_keys s"
  "clinics (Group_get_or_create n s) = clinics s"
  by (simp_all add: Group_get_or_create_def user_keys_def)

lemma create_user_groups_frame [simp]:
  "users (create_user_groups s) = users s"
  "user_keys (create_user_groups s) = user_keys s"
  "clinics (create_user_groups s) = clinics s"
  by (simp_all add: create_user_groups_def user_keys_def)

lemma Role_get_or_create_frame [simp]:
  "users (Role_get_or_create n s) = users s"
  "user_keys (Role_get_or_create n s) = user_keys s"
  "clinics (Role_get_or_create n s) = clinics s"
  "new_user_pk (Role_get_or_create n s) = new_user_pk s"
  by (simp_all add: Role_get_or_create_def create_roles_and_groups_def user_keys_def
      new_user_pk_def Group_get_or_create_def split: option.splits)

lemma groups_add_frame [simp]:
  "user_keys (groups_add i g s) = user_keys s"
  "clinics (groups_add i g s) = clinics s"
  by (simp_all add: groups_add_def user_keys_def)

lemma grant_permission_frame [simp]:
  "user_keys (grant_permission i c s) = user_keys s"
  "clinics (grant_permission i c s) = clinics s"
  by (simp_all add: grant_permission_def user_keys_def)

lemma fold_grant_permission_frame [simp]:
  "user_keys (fold (grant_permission i) cs s) = user_keys s"
  "clinics (fold (grant_permission i) cs s) = clinics s"
  by (induction cs arbitrary: s) simp_all

lemma send_welcome_frame [simp]:
  "users (send_welcome r p s) = users s"
  "user_keys (send_welcome r p s) = user_keys s"
  "clinics (send_welcome r p s) = clinics s"
  by (simp_all add: send_welcome_def user_keys_def)

lemma Clinic_save_clinic_admin_frame [simp]:
  "users (Clinic_save_clinic_admin c s) = users s"
  "user_keys (Clinic_save_clinic_admin c s) = user_keys s"
  "length (clinics (Clinic_save_clinic_admin c s)) = length (clinics s)"
  by (simp_all add: Clinic_save_clinic_admin_def user_keys_def)

lemma TherapistProfile_save_user_frame [simp]:
  "users (TherapistProfile_save_user t s) = users s"
  "user_keys (TherapistProfile_save_user t s) = user_keys s"
  by (simp_all add: TherapistProfile_save_user_def user_keys_def)

lemma ParentProfile_save_user_frame [simp]:
  "users (ParentProfile_save_user p s) = users s"
  "user_keys (ParentProfile_save_user p s) = user_keys s"
  by (simp_all add: ParentProfile_save_user_def user_keys_def)

text \<open>
  Saving a user again keeps the keys when the rows with its primary key have its email,
  as the row that was inserted for it has.
\<close>

lemma User_save_keys:
  assumes "\<forall>k \<in> set (user_keys s). fst k = uid u \<longrightarrow> snd k = email u"
  shows "user_keys (User_save u s) = user_keys s"
  using assms by (auto simp add: User_save_def user_keys_def)

lemma User_save_clinics [simp]: "clinics (User_save u s) = clinics s"
  by (simp add: User_save_def)

lemma new_row_keys:
  assumes "i \<notin> set (map fst ks)"
  shows "\<forall>k \<in> set (ks @ [(i, e)]). fst k = i \<longrightarrow> snd k = e"
  using assms by auto

text \<open>Inserting a user appends one row with a new primary key.\<close>

lemma User_insert_Inr:
  assumes "User_insert x s = Inr (s', u)"
  shows "u = x\<lparr>uid := new_user_pk s\<rparr> \<and> users s' = users s @ [u] \<and>
         clinics s' = clinics s \<and>
         user_keys s' = user_keys s @ [(new_user_pk s, email x)]"
  using assms by (auto simp add: User_insert_def Let_def user_keys_def split: if_splits)

lemma create_user_Inr:
  assumes "create_user s e pw x = Inr (s', u)"
  shows "uid u = new_user_pk s \<and> truthy e \<and> clinics s' = clinics s \<and>
         user_keys s' = user_keys s @ [(new_user_pk s, normalize_email e)]"
  using assms User_insert_Inr [of "x\<lparr>email := normalize_email e, password := pw\<rparr>" s s' u]
  by (auto simp add: create_user_def split: if_splits)

lemma normalize_email_truthy: "truthy e \<Longrightarrow> truthy (normalize_email e)"
  by (simp add: normalize_email_def truthy_def Let_def)

subsection \<open>What each handler adds to the user table\<close>

text \<open>
  Each provisioning path either leaves the keys of the user table as they were, or appends
  one row with a new primary key and the email of the entity, and links the entity to it.
\<close>

lemma create_clinic_admin_user_effect:
  "length (clinics (fst (create_clinic_admin_user rnd s c created))) = length (clinics s) \<and>
   (user_keys (fst (create_clinic_admin_user rnd s c created)) = user_keys s \<and>
    snd (create_clinic_admin_user rnd s c created) = c
    \<or>
    created \<and> truthy (clinic_email c) \<and> truthy (contact_person_name c) \<and> clinic_admin c = None \<and>
    user_keys (fst (create_clinic_admin_user rnd s c created))
      = user_keys s @ [(new_user_pk s, normalize_email (clinic_email c))] \<and>
    snd (create_clinic_admin_user rnd s c created)
      = c\<lparr>clinic_admin := Some (new_user_pk s)\<rparr>)"
proof (cases "created \<and> truthy (clinic_email c) \<and> truthy (contact_person_name c) \<and>
         clinic_admin c = None")
  case False
  then show ?thesis by (auto simp add: create_clinic_admin_user_def)
next
  case guard: True
  let ?s1 = "Role_get_or_create ''Clinic Admin'' s"
  let ?name_parts = "split (strip (contact_person_name c))"
  let ?x = "new_user\<lparr>first_name := (if ?name_parts \<noteq> [] then hd ?name_parts else ''Admin''),
                      last_name := (if length ?name_parts > 1 then join '' '' (tl ?name_parts) else []),
                      role := Some ''Clinic Admin'', is_staff := True,
                      is_active := clinic_is_active c, password_reset_required := True\<rparr>"
  show ?thesis
  proof (cases "create_user ?s1 (clinic_email c) (models_generate_temp_password rnd 12) ?x")
    case (Inl e)
    with guard show ?thesis
      by (simp add: create_clinic_admin_user_def Let_def user_keys_def)
  next
    case (Inr r)
    obtain s2 u where r: "r = (s2, u)" by (cases r)
    from create_user_Inr [OF Inr [unfolded r]]
    have "uid u = new_user_pk s" and "clinics s2 = clinics s"
      and "user_keys s2 = user_keys s @ [(new_user_pk s, normalize_email (clinic_email c))]"
      by simp_all
    with guard Inr r show ?thesis
      by (simp add: create_clinic_admin_user_def Let_def)
  qed
qed

lemma User_save_new_row:
  assumes "user_keys s = ks @ [(uid u, email u)]" and "uid u \<notin> set (map fst ks)"
  shows "user_keys (User_save u s) = ks @ [(uid u, email u)]"
  using User_save_keys [of s u] new_row_keys [OF assms(2), of "email u"] assms(1) by simp

lemma fresh_key: "new_user_pk s \<notin> set (map fst (user_keys s))"
  using new_pk_fresh [of "user_id_seq s" "map uid (users s)"]
  by (simp add: user_keys_def comp_def new_user_pk_def)

lemma create_therapist_user_effect:
  "user_keys (fst (create_therapist_user rnd s t created)) = user_keys s \<and>
   snd (create_therapist_user rnd s t created) = t
   \<or>
   created \<and> truthy (therapist_email t) \<and> therapist_user t = None \<and>
   user_keys (fst (create_therapist_user rnd s t created))
     = user_keys s @ [(new_user_pk s, therapist_email t)] \<and>
   snd (create_therapist_user rnd s t created)
     = t\<lparr>therapist_user := Some (new_user_pk s)\<rparr>"
proof (cases "created \<and> truthy (therapist_email t) \<and> therapist_user t = None")
  case False
  then show ?thesis by (auto simp add: create_therapist_user_def)
next
  case guard: True
  let ?s1 = "Role_get_or_create ''Therapist'' s"
  let ?x = "new_user\<lparr>email := therapist_email t, first_name := therapist_first_name t,
                      last_name := therapist_last_name t, role := Some ''Therapist'',
                      is_staff := True, is_active := therapist_is_active t,
                      password_reset_required := True\<rparr>"
  show ?thesis
  proof (cases "User_objects_create ?s1 ?x")
    case (Inl e)
    with guard show ?thesis by (simp add: create_therapist_user_def Let_def user_keys_def)
  next
    case (Inr r)
    obtain s2 u where r: "r = (s2, u)" by (cases r)
    let ?k = "new_user_pk s"
    from User_insert_Inr [of ?x ?s1 s2 u] Inr r
    have u: "uid u = ?k" "email u = therapist_email t"
      and keys: "user_keys s2 = user_keys s @ [(?k, therapist_email t)]"
      by (simp_all add: User_objects_create_def)
    obtain u' pw where g: "User_generate_temp_password rnd u = (u', pw)"
      by (cases "User_generate_temp_password rnd u")
    then have u': "uid u' = ?k" "email u' = therapist_email t"
      using u by (auto simp add: User_generate_temp_password_def Let_def)
    have "user_keys (User_save u' s2) = user_keys s @ [(?k, therapist_email t)]"
      using User_save_new_row [of s2 "user_keys s" u'] keys u' fresh_key [of s] by simp
    with guard Inr r g u' show ?thesis
      by (simp add: create_therapist_user_def Let_def)
  qed
qed

lemma create_parent_user_effect:
  "user_keys (fst (create_parent_user rnd s p created)) = user_keys s \<and>
   snd (create_parent_user rnd s p created) = p
   \<or>
   created \<and> truthy (parent_email p) \<and> parent_user p = None \<and>
   user_keys (fst (create_parent_user rnd s p created))
     = user_keys s @ [(new_user_pk s, parent_email p)] \<and>
   snd (create_parent_user rnd s p created)
     = p\<lparr>parent_user := Some (new_user_pk s)\<rparr>"
proof (cases "created \<and> truthy (parent_email p) \<and> parent_user p = None")
  case False
  then show ?thesis by (auto simp add: create_parent_user_def)
next
  case guard: True
  let ?s1 = "Role_get_or_create ''Parent'' s"
  let ?x = "new_user\<lparr>email := parent_email p, first_name := parent_first_name p,
                      last_name := parent_last_name p, role := Some ''Parent'',
                      is_staff := False, is_active := parent_is_active p,
                      password_reset_required := True\<rparr>"
  show ?thesis
  proof (cases "User_objects_create ?s1 ?x")
    case (Inl e)
    with guard show ?thesis by (simp add: create_parent_user_def Let_def user_keys_def)
  next
    case (Inr r)
    obtain s2 u where r: "r = (s2, u)" by (cases r)
    let ?k = "new_user_pk s"
    from User_insert_Inr [of ?x ?s1 s2 u] Inr r
    have u: "uid u = ?k" "email u = parent_email p"
      and keys: "user_keys s2 = user_keys s @ [(?k, parent_email p)]"
      by (simp_all add: User_objects_create_def)
    obtain u' pw where g: "User_generate_temp_password rnd u = (u', pw)"
      by (cases "User_generate_temp_password rnd u")
    then have u': "uid u' = ?k" "email u' = parent_email p"
      using u by (auto simp add: User_generate_temp_password_def Let_def)
    have k3: "user_keys (User_save u' s2) = user_keys s @ [(?k, parent_email p)]"
      using User_save_new_row [of s2 "user_keys s" u'] keys u' fresh_key [of s] by simp
    have "user_keys (assign_to_group u' ''parent'' (User_save u' s2))
            = user_keys s @ [(?k, parent_email p)]"
      unfolding assign_to_group_def
      using User_save_new_row
          [of "groups_add (uid u') ''parent'' (Group_get_or_create ''parent'' (User_save u' s2))"
              "user_keys s" u']
        k3 u' fresh_key [of s] by simp
    with guard Inr r g u' show ?thesis
      by (simp add: create_parent_user_def Let_def)
  qed
qed

lemma Clinic_save_linked:
  assumes "clinic_admin c \<noteq> None" and "clinic_pk c = None"
  shows "\<exists>k. Clinic_save rnd s c
           = (s\<lparr>clinics := clinics s @ [c\<lparr>clinic_pk := Some k\<rparr>], clinic_id_seq := k\<rparr>,
              c\<lparr>clinic_pk := Some k\<rparr>)"
proof -
  from assms(1) obtain i where "clinic_admin c = Some i" by auto
  with assms(2) have "Clinic_save rnd s c
      = (s\<lparr>clinics := clinics s @ [c\<lparr>clinic_pk := Some (new_clinic_pk s)\<rparr>],
            clinic_id_seq := new_clinic_pk s\<rparr>,
         c\<lparr>clinic_pk := Some (new_clinic_pk s)\<rparr>)"
    by (simp add: Clinic_save_def Let_def create_clinic_admin_user_def)
  then show ?thesis by blast
qed

lemma Clinic_save_effect:
  "(clinic_pk c = None \<longrightarrow> length (clinics (fst (Clinic_save rnd s c))) = Suc (length (clinics s))) \<and>
   (user_keys (fst (Clinic_save rnd s c)) = user_keys s
    \<or>
    truthy (clinic_email c) \<and> truthy (contact_person_name c) \<and> clinic_admin c = None \<and>
    user_keys (fst (Clinic_save rnd s c))
      = user_keys s @ [(new_user_pk s, normalize_email (clinic_email c))] \<and>
    clinic_admin (snd (Clinic_save rnd s c)) = Some (new_user_pk s))"
proof -
  have effect: "length (clinics (fst (create_clinic_admin_user rnd s0 c0 b))) = length (clinics s0) \<and>
     (user_keys (fst (create_clinic_admin_user rnd s0 c0 b)) = user_keys s \<or>
      truthy (clinic_email c) \<and> truthy (contact_person_name c) \<and> clinic_admin c = None \<and>
      user_keys (fst (create_clinic_admin_user rnd s0 c0 b))
        = user_keys s @ [(new_user_pk s, normalize_email (clinic_email c))] \<and>
      clinic_admin (snd (create_clinic_admin_user rnd s0 c0 b)) = Some (new_user_pk s))"
    if "users s0 = users s" and "user_id_seq s0 = user_id_seq s"
      and "clinic_email c0 = clinic_email c" and "contact_person_name c0 = contact_person_name c"
      and "clinic_admin c0 = clinic_admin c" for s0 c0 b
  proof -
    from that have "user_keys s0 = user_keys s" and "new_user_pk s0 = new_user_pk s"
      by (simp_all add: user_keys_def new_user_pk_def)
    with create_clinic_admin_user_effect [of rnd s0 c0 b] that show ?thesis by auto
  qed
  show ?thesis
  proof (cases "clinic_pk c")
    case None
    let ?c = "c\<lparr>clinic_pk := Some (new_clinic_pk s)\<rparr>"
    let ?s = "s\<lparr>clinics := clinics s @ [?c], clinic_id_seq := new_clinic_pk s\<rparr>"
    have "Clinic_save rnd s c = create_clinic_admin_user rnd ?s ?c True"
      using None by (simp add: Clinic_save_def Let_def)
    with effect [of ?s ?c True] None show ?thesis by simp
  next
    case (Some i)
    show ?thesis
    proof (cases "list_ex (\<lambda>x. clinic_pk x = Some i) (clinics s)")
      case True
      let ?s = "s\<lparr>clinics := map (\<lambda>x. if clinic_pk x = Some i then c else x) (clinics s)\<rparr>"
      have "Clinic_save rnd s c = create_clinic_admin_user rnd ?s c False"
        using Some True by (simp add: Clinic_save_def)
      with effect [of ?s c False] Some show ?thesis by simp
    next
      case False
      let ?s = "s\<lparr>clinics := clinics s @ [c], clinic_id_seq := max (clinic_id_seq s) i\<rparr>"
      have "Clinic_save rnd s c = create_clinic_admin_user rnd ?s c True"
        using Some False by (simp add: Clinic_save_def)
      with effect [of ?s c True] Some show ?thesis by simp
    qed
  qed
qed

lemma Clinic_save_linked_keys:
  assumes "clinic_admin c \<noteq> None"
  shows "user_keys (fst (Clinic_save rnd s c)) = user_keys s \<and>
         clinic_admin (snd (Clinic_save rnd s c)) = clinic_admin c"
proof -
  from assms obtain i where "clinic_admin c = Some i" by auto
  then show ?thesis
    by (cases "clinic_pk c")
      (simp_all add: Clinic_save_def Let_def create_clinic_admin_user_def user_keys_def)
qed

lemma ClinicAdmin_save_model_effect:
  assumes "ClinicAdmin_save_model rnd s obj False = Some (Inr (s', obj'))"
    and "truthy (clinic_email obj)" and "truthy (contact_person_name obj)"
  shows "user_keys s' = user_keys s @ [(new_user_pk s, normalize_email (clinic_email obj))] \<and>
         clinic_admin obj' = Some (new_user_pk s) \<and>
         (clinic_pk obj = None \<longrightarrow> clinics s' = clinics s @ [obj'])"
proof -
  let ?s1 = "Role_get_or_create ''Clinic Admin'' s"
  let ?k = "new_user_pk s"
  from assms obtain pw where pw: "admin_generate_temp_password rnd 12 = Some pw"
    by (auto simp add: ClinicAdmin_save_model_def Let_def split: option.splits)
  from assms pw obtain first rest where parts: "split (strip (contact_person_name obj)) = first # rest"
    by (auto simp add: ClinicAdmin_save_model_def Let_def split: list.splits)
  let ?x = "new_user\<lparr>first_name := first,
              last_name := (if length (first # rest) > 1 then join '' '' rest else []),
              role := Some ''Clinic Admin'', is_staff := True,
              is_active := True, password_reset_required := True\<rparr>"
  from assms pw parts obtain s2 u where cu: "create_user ?s1 (clinic_email obj) pw ?x = Inr (s2, u)"
    by (auto simp add: ClinicAdmin_save_model_def Let_def split: sum.splits)
  from create_user_Inr [OF cu]
  have u: "uid u = ?k" and c2: "clinics s2 = clinics s"
    and k2: "user_keys s2 = user_keys s @ [(?k, normalize_email (clinic_email obj))]"
    by simp_all
  let ?s5 = "fold (grant_permission (uid u)) clinic_admin_permissions
               (groups_add (uid u) ''Clinic Admin'' (Group_get_or_create ''Clinic Admin'' s2))"
  let ?obj = "obj\<lparr>clinic_admin := Some (uid u)\<rparr>"
  obtain s6 obj6 where cs: "Clinic_save rnd ?s5 ?obj = (s6, obj6)"
    by (cases "Clinic_save rnd ?s5 ?obj")
  from Clinic_save_linked_keys [of ?obj rnd ?s5] cs
  have k6: "user_keys s6 = user_keys ?s5" and a6: "clinic_admin obj6 = Some (uid u)"
    by simp_all
  from assms pw parts cu cs
  have o: "obj' = obj6" and us: "users s' = users s6" and cl: "clinics s' = clinics s6"
    by (auto simp add: ClinicAdmin_save_model_def Let_def)
  from us have "user_keys s' = user_keys s6" by (simp add: user_keys_def)
  with k6 k2 have keys: "user_keys s' = user_keys s @ [(?k, normalize_email (clinic_email obj))]"
    by simp
  have "clinics s' = clinics s @ [obj']" if "clinic_pk obj = None"
  proof -
    from Clinic_save_linked [of ?obj rnd ?s5] that cs
    obtain k where "s6 = ?s5\<lparr>clinics := clinics ?s5 @ [?obj\<lparr>clinic_pk := Some k\<rparr>],
                              clinic_id_seq := k\<rparr>"
      and "obj6 = ?obj\<lparr>clinic_pk := Some k\<rparr>"
      by auto
    with o cl c2 show ?thesis by simp
  qed
  with keys a6 o u show ?thesis by simp
qed

subsection \<open>Provisioning an entity that is linked\<close>

text \<open>
  The three \<^verbatim>\<open>post_save\<close> handlers start with a test of the link: for a clinic, a
  therapist profile or a parent profile that has a linked user they return the store and
  the entity as they were, whatever the \<^verbatim>\<open>created\<close> flag of the signal.
\<close>

lemma post_save_handlers_are_idempotent:
  "(clinic_admin c \<noteq> None \<longrightarrow> create_clinic_admin_user rnd s c created = (s, c)) \<and>
   (therapist_user t \<noteq> None \<longrightarrow> create_therapist_user rnd s t created = (s, t)) \<and>
   (parent_user p \<noteq> None \<longrightarrow> create_parent_user rnd s p created = (s, p))"
  by (simp add: create_clinic_admin_user_def create_therapist_user_def create_parent_user_def)

text \<open>
  \<^verbatim>\<open>save_model\<close> of a change (\<^verbatim>\<open>change\<close> true) to a linked clinic saves the clinic
  and adds no user.
\<close>

lemma save_model_change_keeps_users:
  assumes "clinic_admin obj \<noteq> None"
  shows "\<exists>s' obj'. ClinicAdmin_save_model rnd s obj True = Some (Inr (s', obj')) \<and>
           user_keys s' = user_keys s \<and> clinic_admin obj' = clinic_admin obj"
  using Clinic_save_linked_keys [OF assms, of rnd s]
  by (cases "Clinic_save rnd s obj") (simp add: ClinicAdmin_save_model_def)


subsection \<open>Users have an email\<close>

text \<open>
  Claim C10: \<^verbatim>\<open>create_user\<close> with an empty email returns the \<^verbatim>\<open>ValueError\<close>
  ``The Email field must be set'' and, being an error, no store with a new user. And no
  provisioning path adds a user without an email: after the handler of a clinic, of a
  therapist profile or of a parent profile, and after a successful \<^verbatim>\<open>save_model\<close> of
  the clinic admin, the emails of the user table are the emails that were there, in
  their order, followed by emails that are not empty.
\<close>

theorem no_user_without_email:
  "create_user s [] pw extra = Inl (ValueError ''The Email field must be set'') \<and>
   (\<exists>es. map email (users (fst (create_clinic_admin_user rnd s c created))) = map email (users s) @ es \<and>
         list_all truthy es) \<and>
   (\<exists>es. map email (users (fst (create_therapist_user rnd s t created))) = map email (users s) @ es \<and>
         list_all truthy es) \<and>
   (\<exists>es. map email (users (fst (create_parent_user rnd s p created))) = map email (users s) @ es \<and>
         list_all truthy es) \<and>
   (\<forall>s' obj'. ClinicAdmin_save_model rnd s obj change = Some (Inr (s', obj')) \<longrightarrow>
      (\<exists>es. map email (users s') = map email (users s) @ es \<and> list_all truthy es))"
proof -
  have 1: "create_user s [] pw extra = Inl (ValueError ''The Email field must be set'')"
    by (simp add: create_user_def truthy_def)
  have 2: "\<exists>es. map email (users (fst (create_clinic_admin_user rnd s c created)))
                  = map email (users s) @ es \<and> list_all truthy es"
    using create_clinic_admin_user_effect [of rnd s c created] normalize_email_truthy
    by (auto simp add: user_keys_simps)
  have 3: "\<exists>es. map email (users (fst (create_therapist_user rnd s t created)))
                  = map email (users s) @ es \<and> list_all truthy es"
    using create_therapist_user_effect [of rnd s t created]
    by (auto simp add: user_keys_simps)
  have 4: "\<exists>es. map email (users (fst (create_parent_user rnd s p created)))
                  = map email (users s) @ es \<and> list_all truthy es"
    using create_parent_user_effect [of rnd s p created]
    by (auto simp add: user_keys_simps)
  have 5: "\<exists>es. map email (users s') = map email (users s) @ es \<and> list_all truthy es"
    if r: "ClinicAdmin_save_model rnd s obj change = Some (Inr (s', obj'))" for s' obj'
  proof (cases "\<not> change \<and> truthy (clinic_email obj) \<and> truthy (contact_person_name obj)")
    case True
    with r ClinicAdmin_save_model_effect [of rnd s obj s' obj'] normalize_email_truthy
    show ?thesis by (auto simp add: user_keys_simps)
  next
    case False
    with r have "s' = fst (Clinic_save rnd s obj)"
      by (auto simp add: ClinicAdmin_save_model_def)
    with Clinic_save_effect [of obj rnd s] normalize_email_truthy show ?thesis
      by (auto simp add: user_keys_simps)
  qed
  from 1 2 3 4 5 show ?thesis by blast
qed

theorem no_user_without_email_witness:
  "create_user empty_store [] ''pw'' new_user = Inl (ValueError ''The Email field must be set'') \<and>
   map_option (map_sum id (\<lambda>r. map email (users (fst r))))
       (ClinicAdmin_save_model rnd1 empty_store jane_clinic False) = Some (Inr [''a@x.com'']) \<and>
   map email (users (fst (create_parent_user rnd1 empty_store (hd (parent_profiles store1)) True))) = [] \<and>
   map email (users (fst (create_parent_user rnd1 empty_store
       ((hd (parent_profiles store1))\<lparr>parent_user := None\<rparr>) True))) = [''parent@x.com'']"
proof -
  have a: "map_option (map_sum id (\<lambda>r. map email (users (fst r))))
       (ClinicAdmin_save_model rnd1 empty_store jane_clinic False) = Some (Inr [''a@x.com''])"
    by code_simp
  have b: "map email (users (fst (create_parent_user rnd1 empty_store (hd (parent_profiles store1)) True))) = []"
    by code_simp
  have c: "map email (users (fst (create_parent_user rnd1 empty_store
       ((hd (parent_profiles store1))\<lparr>parent_user := None\<rparr>) True))) = [''parent@x.com'']"
    by code_simp
  from a b c no_user_without_email [of empty_store "''pw''" new_user rnd1 jane_clinic True
      "hd (therapist_profiles store1)" "hd (parent_profiles store1)" jane_clinic False]
  show ?thesis by blast
qed

subsection \<open>Creating a clinic in the admin\<close>



text \<open>
  Claim C3 as stated fails for a clinic that is saved without the admin form: the clinic
  \<open>second_clinic\<close> has the email of a user of \<open>store1\<close>, and \<^verbatim>\<open>Clinic.save()\<close>
  inserts it; the handler reports the \<^verbatim>\<open>IntegrityError\<close> of the user table and goes on.
\<close>

theorem registered_email_direct_save:
  "list_ex (\<lambda>u. email u = clinic_email second_clinic) (users store1) \<and>
   clinic_pk second_clinic = None \<and> length (clinics store1) = 1 \<and>
   length (clinics (fst (Clinic_save rnd1 store1 second_clinic))) = 2 \<and>
   clinic_email (last (clinics (fst (Clinic_save rnd1 store1 second_clinic)))) = ''admin@x.com'' \<and>
   log (fst (Clinic_save rnd1 store1 second_clinic)) = [ErrorCreatingUser IntegrityError]"
  by code_simp

text \<open>
  Claim C3, amended: adding a clinic through the admin form with the email of an existing
  user is refused with a \<^verbatim>\<open>ValidationError\<close>, the one that says the email is already
  registered when the email and the contact person name are given; an error carries no
  store, so neither the clinic nor a user is saved. Saving the clinic directly is not
  refused: the clinic table gains the row.
\<close>

theorem registered_email_is_rejected_by_the_form:
  assumes "clinic_pk obj = None" and "u \<in> set (users s)" and "email u = clinic_email obj"
  shows "(\<exists>msg. ClinicAdmin_add rnd s obj = Some (Inl (ValidationError msg))) \<and>
         (truthy (clinic_email obj) \<and> truthy (contact_person_name obj) \<longrightarrow>
            ClinicAdmin_add rnd s obj
              = Some (Inl (ValidationError (''Email '' @ clinic_email obj @ '' is already registered.'')))) \<and>
         length (clinics (fst (Clinic_save rnd s obj))) = Suc (length (clinics s))"
proof -
  from assms(2,3) have "list_ex (\<lambda>u. email u = clinic_email obj) (users s)"
    by (auto simp add: list_ex_iff)
  with assms(1) have "(\<exists>msg. ClinicAdmin_add rnd s obj = Some (Inl (ValidationError msg))) \<and>
         (truthy (clinic_email obj) \<and> truthy (contact_person_name obj) \<longrightarrow>
            ClinicAdmin_add rnd s obj
              = Some (Inl (ValidationError (''Email '' @ clinic_email obj @ '' is already registered.''))))"
    by (simp add: ClinicAdmin_add_def ClinicForm_clean_def)
  with Clinic_save_effect [of obj rnd s] assms(1) show ?thesis by simp
qed

theorem registered_email_is_rejected_by_the_form_witness:
  "clinic_pk second_clinic = None \<and> clinic_admin_user \<in> set (users store1) \<and>
   email clinic_admin_user = clinic_email second_clinic \<and>
   ClinicAdmin_add rnd1 store1 second_clinic
     = Some (Inl (ValidationError ''Email admin@x.com is already registered.''))"
proof -
  have a: "clinic_pk second_clinic = None" "clinic_admin_user \<in> set (users store1)"
    "email clinic_admin_user = clinic_email second_clinic"
    "truthy (clinic_email second_clinic)" "truthy (contact_person_name second_clinic)"
    "clinic_email second_clinic = ''admin@x.com''"
    by (simp_all add: second_clinic_def store1_def clinic_admin_user_def mk_user_def truthy_def)
  from registered_email_is_rejected_by_the_form [OF a(1-3), of rnd1] a show ?thesis by simp
qed

text \<open>
  Claim C4, at an inactive clinic added through the admin: the clinic of Jane Doe at
  \<^verbatim>\<open>a@x.com\<close> gets one user Jane Doe with the role Clinic Admin, the staff flag and the
  flag that a password reset is required, and the clinic is linked to it, but the user is
  active although the clinic is not: \<^verbatim>\<open>save_model\<close> passes \<^verbatim>\<open>is_active=True\<close>.
\<close>

theorem admin_created_user_is_always_active:
  "clinic_pk jane_clinic = None \<and> clinic_email jane_clinic = ''a@x.com'' \<and>
   contact_person_name jane_clinic = ''Jane Doe'' \<and> \<not> clinic_is_active jane_clinic \<and>
   users empty_store = [] \<and>
   map_option (map_sum id (\<lambda>r.
       (map (\<lambda>u. (uid u, first_name u, last_name u, role u, is_staff u,
                   password_reset_required u, is_active u)) (users (fst r)),
        clinic_admin (snd r), clinic_is_active (snd r))))
     (ClinicAdmin_add rnd1 empty_store jane_clinic)
   = Some (Inr ([(1, ''Jane'', ''Doe'', Some ''Clinic Admin'', True, True, True)], Some 1, False))"
  by code_simp

text \<open>
  The \<^verbatim>\<open>post_save\<close> handler passes \<^verbatim>\<open>is_active=instance.is_active\<close>: saving the
  same clinic directly gives an inactive user.
\<close>

lemma signal_created_user_mirrors_active_flag:
  "(\<lambda>r. (map (\<lambda>u. (uid u, first_name u, last_name u, role u, is_staff u,
                     password_reset_required u, is_active u)) (users (fst r)),
          clinic_admin (snd r), clinic_is_active (snd r)))
     (Clinic_save rnd1 empty_store jane_clinic)
   = ([(1, ''Jane'', ''Doe'', Some ''Clinic Admin'', True, True, False)], Some 1, False)"
  by code_simp

end
